theory Spec2Isabelle
  imports Main
begin

section \<open>The model-serving subsystem of BotCommand\<close>

text \<open>
  A shallow embedding of \<^verbatim>\<open>osrs_backend/tcp/server.py\<close>,
  \<^verbatim>\<open>osrs_backend/tcp/protocol.py\<close>, \<^verbatim>\<open>osrs_backend/ml/remote_processor.py\<close>
  and \<^verbatim>\<open>osrs_backend/ml/ppo.py\<close>. Python strings are lists of characters,
  dictionaries are association lists in insertion order, exceptions are values of the
  left summand of a sum type, and the mutable state of the processor is passed explicitly.
\<close>

subsection \<open>Flattening the action masks and splitting the probabilities\<close>

text \<open>
  \<^verbatim>\<open>_process_request\<close> flattens the per-head masks with
  \<^verbatim>\<open>itertools.chain.from_iterable\<close>, and cuts row 0 of the flat probability tensor
  at \<^verbatim>\<open>[0] + list(itertools.accumulate(action_head_sizes))\<close>. A Python slice
  \<^verbatim>\<open>xs[a:b]\<close> with \<open>0 \<le> a\<close> and \<open>0 \<le> b\<close> never raises: it keeps the
  indices \<open>a \<le> i < min b (len xs)\<close>.
\<close>

definition chain_from_iterable :: "'a list list \<Rightarrow> 'a list" where
  "chain_from_iterable xss = concat xss"

fun accumulate_from :: "nat \<Rightarrow> nat list \<Rightarrow> nat list" where
  "accumulate_from tot [] = []"
| "accumulate_from tot (x # xs) = (tot + x) # accumulate_from (tot + x) xs"

definition accumulate :: "nat list \<Rightarrow> nat list" where
  "accumulate xs = (case xs of [] \<Rightarrow> [] | x # rest \<Rightarrow> x # accumulate_from x rest)"

definition py_slice :: "'a list \<Rightarrow> nat \<Rightarrow> nat \<Rightarrow> 'a list" where
  "py_slice xs a b = drop a (take b xs)"

definition cumulative_sizes :: "nat list \<Rightarrow> nat list" where
  "cumulative_sizes action_head_sizes = [0] @ accumulate action_head_sizes"

definition split_probs :: "'m list list \<Rightarrow> 'p list \<Rightarrow> 'p list list" where
  "split_probs raw_sliced_action_masks row =
     (let action_head_sizes = map length raw_sliced_action_masks;
          cum = cumulative_sizes action_head_sizes
      in map (\<lambda>i. py_slice row (cum ! i) (cum ! (i + 1))) [0..<length action_head_sizes])"

text \<open>The recursive reading of the same cut, used in the proofs only.\<close>

fun split_by :: "nat list \<Rightarrow> 'p list \<Rightarrow> 'p list list" where
  "split_by [] row = []"
| "split_by (n # ns) row = take n row # split_by ns (drop n row)"

subsection \<open>Python strings, exceptions and the error line\<close>

text \<open>
  A Python \<^verbatim>\<open>str\<close> is modelled as a \<^typ>\<open>string\<close>, each \<^typ>\<open>char\<close> standing for
  the code point of the same number (so the model covers the code points below 256).
  The characters that cannot be written inside a string literal get names.
\<close>

definition dq :: char where "dq = CHR 0x22"
definition sq :: char where "sq = CHR 0x27"
definition bsl :: char where "bsl = CHR 0x5C"
definition nl :: char where "nl = CHR 0x0A"

definition hexdigit :: "nat \<Rightarrow> char" where
  "hexdigit n = ''0123456789abcdef'' ! (n mod 16)"

text \<open>
  \<^verbatim>\<open>repr\<close> of a \<^verbatim>\<open>str\<close>: single quotes, unless the string holds a single quote and
  no double quote; the quote and the backslash are escaped, tab, newline and carriage
  return are written \<^verbatim>\<open>\t \n \r\<close>, and what is not printable is written
  \<^verbatim>\<open>\xhh\<close>. Below 256 the code points that are not printable are the controls
  \<open>0x00..0x1f\<close> and \<open>0x7f..0x9f\<close>, the no-break space \<open>0xa0\<close> and the soft hyphen
  \<open>0xad\<close>.
\<close>

definition py_isprintable :: "char \<Rightarrow> bool" where
  "py_isprintable c =
     (let n = (of_char c :: nat)
      in (0x20 \<le> n \<and> n < 0x7f) \<or> (0xa1 \<le> n \<and> n \<noteq> 0xad))"

definition py_repr_quote :: "string \<Rightarrow> char" where
  "py_repr_quote s = (if sq \<in> set s \<and> dq \<notin> set s then dq else sq)"

definition py_repr_char :: "char \<Rightarrow> char \<Rightarrow> string" where
  "py_repr_char quote c =
     (if c = quote \<or> c = bsl then [bsl, c]
      else if c = CHR 0x09 then [bsl, CHR ''t'']
      else if c = CHR 0x0A then [bsl, CHR ''n'']
      else if c = CHR 0x0D then [bsl, CHR ''r'']
      else if \<not> py_isprintable c
        then [bsl, CHR ''x'', hexdigit (of_char c div 16), hexdigit (of_char c mod 16)]
      else [c])"

definition py_repr :: "string \<Rightarrow> string" where
  "py_repr s = (let quote = py_repr_quote s
                in [quote] @ concat (map (py_repr_char quote) s) @ [quote])"

text \<open>\<^verbatim>\<open>', '.join(parts)\<close> and the \<^verbatim>\<open>str\<close> of a list of strings.\<close>

fun join_comma :: "string list \<Rightarrow> string" where
  "join_comma [] = []"
| "join_comma [x] = x"
| "join_comma (x # y # ys) = x @ '', '' @ join_comma (y # ys)"

definition py_str_list :: "string list \<Rightarrow> string" where
  "py_str_list xs = ''['' @ join_comma (map py_repr xs) @ '']''"

text \<open>
  Exceptions, all of them subclasses of \<^verbatim>\<open>Exception\<close>. Each carries what
  \<^verbatim>\<open>str(e)\<close> is computed from: the message, and for a \<^verbatim>\<open>KeyError\<close> the missing
  key, whose \<^verbatim>\<open>str\<close> is the \<^verbatim>\<open>repr\<close> of the key.
\<close>

datatype exn =
    ValueError string
  | TypeError string
  | KeyError string
  | IndexError string
  | AssertionError
  | OSError string
  | OtherError string

fun py_str_exn :: "exn \<Rightarrow> string" where
  "py_str_exn (ValueError msg) = msg"
| "py_str_exn (TypeError msg) = msg"
| "py_str_exn (KeyError k) = py_repr k"
| "py_str_exn (IndexError msg) = msg"
| "py_str_exn AssertionError = []"
| "py_str_exn (OSError msg) = msg"
| "py_str_exn (OtherError msg) = msg"

text \<open>
  \<^verbatim>\<open>json.dumps\<close> of a string with the default \<^verbatim>\<open>ensure_ascii=True\<close>: the double
  quote and the backslash are escaped, \<^verbatim>\<open>\n \r \t \b \f\<close> have their short forms, and
  every other character outside \<open>0x20..0x7e\<close> is written \<^verbatim>\<open>\u00hh\<close>.
\<close>

definition json_escape_char :: "char \<Rightarrow> string" where
  "json_escape_char c =
     (if c = dq then [bsl, dq]
      else if c = bsl then [bsl, bsl]
      else if c = CHR 0x0A then [bsl, CHR ''n'']
      else if c = CHR 0x0D then [bsl, CHR ''r'']
      else if c = CHR 0x09 then [bsl, CHR ''t'']
      else if c = CHR 0x08 then [bsl, CHR ''b'']
      else if c = CHR 0x0C then [bsl, CHR ''f'']
      else if (of_char c :: nat) < 0x20 \<or> 0x7e < (of_char c :: nat)
        then [bsl, CHR ''u'', CHR ''0'', CHR ''0'',
              hexdigit (of_char c div 16), hexdigit (of_char c mod 16)]
      else [c])"

definition json_dumps_str :: "string \<Rightarrow> string" where
  "json_dumps_str s = [dq] @ concat (map json_escape_char s) @ [dq]"

text \<open>
  The line of the \<^verbatim>\<open>except Exception as e\<close> branch of \<^verbatim>\<open>_handle_client\<close>:
  \<^verbatim>\<open>(json.dumps({"error": str(e)}) + "\n").encode()\<close>.
\<close>

definition json_dumps_error :: "string \<Rightarrow> string" where
  "json_dumps_error msg = ''{'' @ json_dumps_str ''error'' @ '': '' @ json_dumps_str msg @ ''}''"

definition error_line :: "exn \<Rightarrow> string" where
  "error_line e = json_dumps_error (py_str_exn e) @ [nl]"

subsection \<open>The model catalog\<close>

text \<open>
  A \<^verbatim>\<open>dict\<close> keeps its keys in insertion order; storing under a key that is present
  replaces the value and leaves the key where it is.
\<close>

type_synonym ('k, 'v) dict = "('k \<times> 'v) list"

definition dict_keys :: "('k, 'v) dict \<Rightarrow> 'k list" where
  "dict_keys d = map fst d"

definition dict_values :: "('k, 'v) dict \<Rightarrow> 'v list" where
  "dict_values d = map snd d"

definition dict_contains :: "('k, 'v) dict \<Rightarrow> 'k \<Rightarrow> bool" where
  "dict_contains d k = (k \<in> set (dict_keys d))"

definition dict_lookup :: "('k, 'v) dict \<Rightarrow> 'k \<Rightarrow> 'v option" where
  "dict_lookup d k = map_of d k"

definition dict_setitem :: "('k, 'v) dict \<Rightarrow> 'k \<Rightarrow> 'v \<Rightarrow> ('k, 'v) dict" where
  "dict_setitem d k v =
     (if dict_contains d k then map (\<lambda>(k', v'). if k' = k then (k', v) else (k', v')) d
      else d @ [(k, v)])"

text \<open>\<^verbatim>\<open>s.endswith(suffix)\<close> and \<^verbatim>\<open>s.rfind(c)\<close>, which is \<open>-1\<close> when \<open>c\<close> is absent.\<close>

definition endswith :: "string \<Rightarrow> string \<Rightarrow> bool" where
  "endswith s suffix =
     (length suffix \<le> length s \<and> drop (length s - length suffix) s = suffix)"

definition rfind :: "string \<Rightarrow> char \<Rightarrow> int" where
  "rfind s c =
     (if c \<in> set s
      then int (length s) - 1 - int (length (takeWhile (\<lambda>x. x \<noteq> c) (rev s)))
      else - 1)"

text \<open>
  \<^verbatim>\<open>os.path.splitext(p)[0]\<close> on a POSIX system: the extension starts at the last dot,
  provided that dot lies after the last \<^verbatim>\<open>/\<close> and some character between the two is
  not a dot (the leading dots of a file name belong to the root).
\<close>

definition splitext_root :: "string \<Rightarrow> string" where
  "splitext_root p =
     (let sepIndex = rfind p (CHR ''/'');
          dotIndex = rfind p (CHR ''.'')
      in if dotIndex > sepIndex
            \<and> list_ex (\<lambda>c. c \<noteq> CHR ''.'') (py_slice p (nat (sepIndex + 1)) (nat dotIndex))
         then take (nat dotIndex) p
         else p)"

text \<open>
  The dict comprehension of \<^verbatim>\<open>TCPInferenceServer.__init__\<close>. The argument
  \<open>joinp\<close> stands for \<^verbatim>\<open>lambda filename: str(models_path / filename)\<close>, computed
  by \<^verbatim>\<open>pathlib\<close>, and \<open>listing\<close> for the result of \<^verbatim>\<open>os.listdir(models_path)\<close>.
\<close>

definition scan_models :: "(string \<Rightarrow> string) \<Rightarrow> string list \<Rightarrow> (string, string) dict" where
  "scan_models joinp listing =
     fold (\<lambda>filename d. dict_setitem d (splitext_root filename) (joinp filename))
          (filter (\<lambda>filename. endswith filename ''.zip'') listing) []"

text \<open>
  For the evaluations: \<^verbatim>\<open>str(Path(d) / filename)\<close> for a directory \<open>d\<close> written
  without a trailing slash and other than \<^verbatim>\<open>.\<close>, and a file name without a slash.
\<close>

definition posix_join :: "string \<Rightarrow> string \<Rightarrow> string" where
  "posix_join d filename = d @ ''/'' @ filename"

subsection \<open>The model cache of \<^verbatim>\<open>ThreadedProcessor\<close>\<close>

text \<open>
  \<^verbatim>\<open>PPO.load\<close> raises \<^verbatim>\<open>ValueError(f"{load_path} not found")\<close> when the path does not
  exist; otherwise \<^verbatim>\<open>torch.load\<close> and the constructor either raise or give the model.
  The storage is an argument: \<open>None\<close> for a path that does not exist, otherwise what
  reading the file for a device results in.
\<close>

type_synonym 'm storage = "string \<Rightarrow> (string \<Rightarrow> exn + 'm) option"

definition PPO_load :: "'m storage \<Rightarrow> string \<Rightarrow> string \<Rightarrow> exn + 'm" where
  "PPO_load storage load_path device =
     (case storage load_path of
        None \<Rightarrow> Inl (ValueError (load_path @ '' not found''))
      | Some read \<Rightarrow> read device)"

text \<open>
  The fields of a \<^verbatim>\<open>ThreadedProcessor\<close>. A loaded model is an object: it is kept with
  an identity, the number of \<^verbatim>\<open>PPO.load\<close> calls made before the one that created it.
  A \<^verbatim>\<open>Lock()\<close> is an object too, identified by the number of locks created before it;
  \<open>p_lock_owner\<close> gives, for each lock object that is held, the thread holding it, and
  \<open>p_lock_lock\<close> the thread holding \<^verbatim>\<open>_lock_lock\<close>. \<open>p_load_calls\<close> is not a
  field of the class: it records the arguments of the \<^verbatim>\<open>PPO.load\<close> calls, in order.
\<close>

record 'm processor =
  p_pool_size :: int
  p_device :: string
  p_models :: "string \<rightharpoonup> nat \<times> 'm"
  p_model_locks :: "string \<rightharpoonup> nat"
  p_lock_lock :: "nat option"
  p_lock_owner :: "nat \<rightharpoonup> nat"
  p_locks_made :: nat
  p_load_calls :: "string list"

definition ThreadedProcessor_init :: "int \<Rightarrow> string \<Rightarrow> 'm processor" where
  "ThreadedProcessor_init pool_size device =
     \<lparr>p_pool_size = pool_size, p_device = device, p_models = Map.empty,
      p_model_locks = Map.empty, p_lock_lock = None, p_lock_owner = Map.empty,
      p_locks_made = 0, p_load_calls = []\<rparr>"

text \<open>
  \<^verbatim>\<open>create_remote_processor\<close>; \<^verbatim>\<open>ThreadPoolExecutor\<close> raises a
  \<^verbatim>\<open>ValueError\<close> for \<^verbatim>\<open>max_workers <= 0\<close>.
\<close>

definition create_remote_processor :: "int \<Rightarrow> string \<Rightarrow> string \<Rightarrow> exn + 'm processor" where
  "create_remote_processor pool_size processor_type device =
     (if processor_type = ''thread''
      then (if pool_size \<le> 0 then Inl (ValueError ''max_workers must be greater than 0'')
            else Inr (ThreadedProcessor_init pool_size device))
      else Inl (ValueError (''Unknown processor type: '' @ processor_type)))"

text \<open>
  \<^verbatim>\<open>_load_model\<close> run by one thread while no other thread is inside it, so that each
  lock it asks for is free and is free again when it returns or raises. The steps are
  those of the method: the first test of \<^verbatim>\<open>_models\<close>, finding or creating the lock of
  the path, the second test, \<^verbatim>\<open>PPO.load\<close> and the store, the removal of the lock
  from \<^verbatim>\<open>_model_locks\<close> (not reached when \<^verbatim>\<open>PPO.load\<close> raises), and the final read.
\<close>

definition find_or_create_lock :: "'m processor \<Rightarrow> string \<Rightarrow> 'm processor" where
  "find_or_create_lock self model_path =
     (if model_path \<notin> dom (p_model_locks self)
      then self\<lparr>p_model_locks := (p_model_locks self)(model_path \<mapsto> p_locks_made self),
                p_locks_made := Suc (p_locks_made self)\<rparr>
      else self)"

definition store_model :: "'m processor \<Rightarrow> string \<Rightarrow> 'm \<Rightarrow> 'm processor" where
  "store_model self model_path m =
     self\<lparr>p_models := (p_models self)(model_path \<mapsto> (length (p_load_calls self), m)),
          p_load_calls := p_load_calls self @ [model_path]\<rparr>"

definition clean_up_lock :: "'m processor \<Rightarrow> string \<Rightarrow> 'm processor" where
  "clean_up_lock self model_path =
     (if model_path \<in> dom (p_model_locks self)
      then self\<lparr>p_model_locks := (p_model_locks self)(model_path := None)\<rparr>
      else self)"

definition return_model :: "'m processor \<Rightarrow> string \<Rightarrow> exn + nat \<times> 'm" where
  "return_model self model_path =
     (case p_models self model_path of
        None \<Rightarrow> Inl (KeyError model_path)
      | Some handle \<Rightarrow> Inr handle)"

definition load_model ::
  "'m storage \<Rightarrow> 'm processor \<Rightarrow> string \<Rightarrow> (exn + nat \<times> 'm) \<times> 'm processor" where
  "load_model storage self model_path =
     (if model_path \<notin> dom (p_models self) then
        (let self1 = find_or_create_lock self model_path
         in if model_path \<notin> dom (p_models self1) then
              (case PPO_load storage model_path (p_device self1) of
                 Inl e \<Rightarrow> (Inl e, self1\<lparr>p_load_calls := p_load_calls self1 @ [model_path]\<rparr>)
               | Inr m \<Rightarrow>
                   (let self2 = clean_up_lock (store_model self1 model_path m) model_path
                    in (return_model self2 model_path, self2)))
            else (let self2 = clean_up_lock self1 model_path
                  in (return_model self2 model_path, self2)))
      else (return_model self model_path, self))"

subsection \<open>The model and its prediction\<close>

text \<open>
  What the policy network computes for one batch: the actions (one row of integers per
  batch entry), the log-probabilities (one per batch entry), and the entropies, the
  values and the flat probabilities (one row each per batch entry). Numbers of the
  network are of an arbitrary type \<open>'f\<close>, the observation tensor of an arbitrary type
  \<open>'t\<close>, and extension results of an arbitrary type \<open>'x\<close>.
\<close>

record 'f policy_out =
  out_actions :: "int list list"
  out_log_probs :: "'f list"
  out_entropy :: "'f list list"
  out_values :: "'f list list"
  out_probs :: "'f list list"

text \<open>
  The fields of a \<^verbatim>\<open>PPO\<close> that prediction reads: the head sizes of the policy
  parameters, the flag and the normalisation of \<^verbatim>\<open>meta\<close>, the network, and the
  extensions by name. The network and an extension may raise.
\<close>

record ('t, 'f, 'x) PPO =
  action_head_sizes :: "nat list"
  normalized_observations :: bool
  normalize :: "'t \<Rightarrow> 't"
  network :: "'t \<Rightarrow> bool list list \<Rightarrow> bool list \<Rightarrow> exn + 'f policy_out"
  ppo_extensions :: "(string, 't \<Rightarrow> exn + 'x) dict"

datatype deterministic_arg = DetBool bool | DetTensor "bool list"

type_synonym 'f policy_result =
  "int list list option \<times> 'f list option \<times> 'f list list option
     \<times> 'f list list option \<times> 'f list list option"

text \<open>
  Modelled from the spec: the call \<^verbatim>\<open>self._eval_policy(...)\<close> runs
  \<^verbatim>\<open>osrs_backend/ml/policy.py\<close>, which is not among the source files. The
  specification has each optional output present only if its flag was set, otherwise
  absent; so each output of the network is returned when its flag is set and \<open>None\<close> is
  returned in its place otherwise.
\<close>

definition eval_policy ::
  "('t, 'f, 'x) PPO \<Rightarrow> 't \<Rightarrow> bool list list \<Rightarrow> bool list
     \<Rightarrow> bool \<Rightarrow> bool \<Rightarrow> bool \<Rightarrow> bool \<Rightarrow> bool \<Rightarrow> exn + 'f policy_result" where
  "eval_policy self obs action_masks sample_deterministic
       return_actions return_entropy return_log_probs return_values return_probs =
     (case network self obs action_masks sample_deterministic of
        Inl e \<Rightarrow> Inl e
      | Inr out \<Rightarrow>
          Inr (if return_actions then Some (out_actions out) else None,
               if return_log_probs then Some (out_log_probs out) else None,
               if return_entropy then Some (out_entropy out) else None,
               if return_values then Some (out_values out) else None,
               if return_probs then Some (out_probs out) else None))"

text \<open>
  \<^verbatim>\<open>[self._extensions[extension].run_extension(obs) for extension in extensions]\<close>:
  a name that is not a key raises \<^verbatim>\<open>KeyError\<close>, and the first exception ends the
  comprehension.
\<close>

fun run_extensions :: "(string, 't \<Rightarrow> exn + 'x) dict \<Rightarrow> 't \<Rightarrow> string list \<Rightarrow> exn + 'x list" where
  "run_extensions exts obs [] = Inr []"
| "run_extensions exts obs (extension # rest) =
     (case dict_lookup exts extension of
        None \<Rightarrow> Inl (KeyError extension)
      | Some run_extension \<Rightarrow>
          (case run_extension obs of
             Inl e \<Rightarrow> Inl e
           | Inr r \<Rightarrow>
               (case run_extensions exts obs rest of
                  Inl e \<Rightarrow> Inl e
                | Inr rs \<Rightarrow> Inr (r # rs))))"

type_synonym ('f, 'x) prediction =
  "int list list option \<times> 'f list option \<times> 'f list list option
     \<times> 'f list list option \<times> 'f list list option \<times> 'x list"

text \<open>
  \<^verbatim>\<open>PPO.predict\<close>. Moving a tensor to a device does not change its value, so the
  \<^verbatim>\<open>.to(...)\<close> calls and \<^verbatim>\<open>return_device\<close> do not appear.
\<close>

definition PPO_predict ::
  "('t, 'f, 'x) PPO \<Rightarrow> 't \<Rightarrow> bool list list \<Rightarrow> deterministic_arg
     \<Rightarrow> bool \<Rightarrow> bool \<Rightarrow> bool \<Rightarrow> bool \<Rightarrow> bool \<Rightarrow> string list \<Rightarrow> exn + ('f, 'x) prediction" where
  "PPO_predict self obs action_masks deterministic
       return_actions return_log_probs return_entropy return_values return_probs extensions =
     (let sample_deterministic =
            (case deterministic of
               DetBool True \<Rightarrow> replicate (length (action_head_sizes self)) True
             | DetBool False \<Rightarrow> replicate (length (action_head_sizes self)) False
             | DetTensor t \<Rightarrow> t);
          obs1 = (if normalized_observations self then normalize self obs else obs)
      in case eval_policy self obs1 action_masks sample_deterministic
                return_actions return_entropy return_log_probs return_values return_probs of
           Inl e \<Rightarrow> Inl e
         | Inr (actions, log_probs, entropy, values, probs) \<Rightarrow>
             (case run_extensions (ppo_extensions self) obs1 extensions of
                Inl e \<Rightarrow> Inl e
              | Inr extension_results \<Rightarrow>
                  Inr (actions, log_probs, entropy, values, probs, extension_results)))"

text \<open>
  \<^verbatim>\<open>_worker_task\<close>, which \<^verbatim>\<open>ThreadedProcessor.predict\<close> hands to the executor with
  its arguments unchanged (\<^verbatim>\<open>process_id\<close> is not among them). Without an observation
  the call only loads the model.
\<close>

definition worker_task ::
  "('t, 'f, 'x) PPO storage \<Rightarrow> ('t, 'f, 'x) PPO processor \<Rightarrow> string
     \<Rightarrow> 't option \<Rightarrow> bool list list option \<Rightarrow> deterministic_arg
     \<Rightarrow> bool \<Rightarrow> bool \<Rightarrow> bool \<Rightarrow> bool \<Rightarrow> bool \<Rightarrow> string list
     \<Rightarrow> (exn + ('f, 'x) prediction) \<times> ('t, 'f, 'x) PPO processor" where
  "worker_task storage self model_path observation action_masks deterministic
       return_actions return_log_probs return_entropy return_values return_probs extensions =
     (case load_model storage self model_path of
        (Inl e, self1) \<Rightarrow> (Inl e, self1)
      | (Inr (ident, model), self1) \<Rightarrow>
          (case observation of
             None \<Rightarrow> (Inr (None, None, None, None, None, []), self1)
           | Some obs \<Rightarrow>
               (case action_masks of
                  None \<Rightarrow> (Inl AssertionError, self1)
                | Some masks \<Rightarrow>
                    (PPO_predict model obs masks deterministic
                       return_actions return_log_probs return_entropy return_values
                       return_probs extensions, self1))))"

subsection \<open>Requests, responses and the server\<close>

text \<open>
  The two frozen dataclasses of \<^verbatim>\<open>protocol.py\<close>, with the types of their
  annotations. An observation entry (\<^verbatim>\<open>float | int | bool\<close>) is of an arbitrary type
  \<open>'o\<close>.
\<close>

record 'o InferenceRequest =
  model :: string
  actionMasks :: "bool list list"
  obs :: "'o list list"
  deterministic :: deterministic_arg
  returnLogProb :: bool
  returnEntropy :: bool
  returnValue :: bool
  returnProbs :: bool
  extensions :: "string list"

record ('f, 'x) InferenceResponse =
  action :: "int list"
  logProb :: "'f option"
  entropy :: "'f list option"
  "values" :: "'f list option"
  probs :: "'f list list option"
  extensionResults :: "'x list"

record server =
  host :: string
  port :: int
  pool_size :: int
  processor_type :: string
  device :: string
  models :: "(string, string) dict"

text \<open>
  \<^verbatim>\<open>TCPInferenceServer.__init__\<close>. The file system is an argument: \<open>listdir p\<close> is
  \<open>None\<close> when \<open>p\<close> does not exist, and otherwise what \<^verbatim>\<open>os.listdir(p)\<close> does
  (it raises when \<open>p\<close> is not a directory); \<open>joinp p filename\<close> is
  \<^verbatim>\<open>str(p / filename)\<close>. \<^verbatim>\<open>models_dir or settings.models_dir\<close> takes the setting
  when the argument is \<^verbatim>\<open>None\<close> or empty.
\<close>

definition TCPInferenceServer_init ::
  "(string \<Rightarrow> (exn + string list) option) \<Rightarrow> (string \<Rightarrow> string \<Rightarrow> string) \<Rightarrow> string
     \<Rightarrow> string \<Rightarrow> int \<Rightarrow> string option \<Rightarrow> int \<Rightarrow> string \<Rightarrow> string \<Rightarrow> exn + server" where
  "TCPInferenceServer_init listdir joinp settings_models_dir
       host0 port0 models_dir pool_size0 processor_type0 device0 =
     (let models_path = (case models_dir of
                           None \<Rightarrow> settings_models_dir
                         | Some d \<Rightarrow> if d = [] then settings_models_dir else d);
          self = \<lparr>host = host0, port = port0, pool_size = pool_size0,
                  processor_type = processor_type0, device = device0, models = []\<rparr>
      in case listdir models_path of
           Some (Inr listing) \<Rightarrow> Inr (self\<lparr>models := scan_models (joinp models_path) listing\<rparr>)
         | Some (Inl e) \<Rightarrow> Inl e
         | None \<Rightarrow> Inr (self\<lparr>models := []\<rparr>))"

text \<open>
  \<^verbatim>\<open>_preload_models\<close>: one \<^verbatim>\<open>predict(process_id=i, model_path=model)\<close> per pool slot
  and per catalog value, slots in the outer loop. Each task is \<^verbatim>\<open>_worker_task\<close> without
  an observation. Here the tasks run one after the other in the order of the list;
  \<^verbatim>\<open>asyncio.gather\<close> lets every task run and raises the first exception.
\<close>

definition preload_tasks :: "server \<Rightarrow> 'm processor \<Rightarrow> string list" where
  "preload_tasks self remote_processor =
     concat (map (\<lambda>i. dict_values (models self)) [0..<nat (p_pool_size remote_processor)])"

fun run_preloads ::
  "('t, 'f, 'x) PPO storage \<Rightarrow> ('t, 'f, 'x) PPO processor \<Rightarrow> string list
     \<Rightarrow> exn option \<times> ('t, 'f, 'x) PPO processor" where
  "run_preloads storage remote_processor [] = (None, remote_processor)"
| "run_preloads storage remote_processor (model_path # rest) =
     (case worker_task storage remote_processor model_path None None (DetBool False)
             True False False False False [] of
        (Inl e, p1) \<Rightarrow> (Some e, snd (run_preloads storage p1 rest))
      | (Inr r, p1) \<Rightarrow> run_preloads storage p1 rest)"

definition preload_models ::
  "('t, 'f, 'x) PPO storage \<Rightarrow> server \<Rightarrow> ('t, 'f, 'x) PPO processor
     \<Rightarrow> exn option \<times> ('t, 'f, 'x) PPO processor" where
  "preload_models storage self remote_processor =
     run_preloads storage remote_processor (preload_tasks self remote_processor)"

text \<open>
  \<^verbatim>\<open>start\<close>: the processor is created, the models are preloaded when the catalog is
  not empty, and the listener is bound; \<open>bind\<close> is the exception
  \<^verbatim>\<open>asyncio.start_server\<close> raises, if any.
\<close>

definition start ::
  "('t, 'f, 'x) PPO storage \<Rightarrow> exn option \<Rightarrow> server \<Rightarrow> exn + ('t, 'f, 'x) PPO processor" where
  "start storage bind self =
     (case create_remote_processor (pool_size self) (processor_type self) (device self) of
        Inl e \<Rightarrow> Inl e
      | Inr remote_processor \<Rightarrow>
          (case (if models self \<noteq> [] then preload_models storage self remote_processor
                 else (None, remote_processor)) of
             (Some e, p1) \<Rightarrow> Inl e
           | (None, p1) \<Rightarrow> (case bind of Some e \<Rightarrow> Inl e | None \<Rightarrow> Inr p1)))"

text \<open>
  \<^verbatim>\<open>t.tolist()[0]\<close> and \<^verbatim>\<open>t[0, a:b]\<close> read the first row of a tensor and raise
  \<^verbatim>\<open>IndexError\<close> when there is none.
\<close>

definition first_row :: "'a list \<Rightarrow> exn + 'a" where
  "first_row t = (case t of [] \<Rightarrow> Inl (IndexError ''list index out of range'') | r # _ \<Rightarrow> Inr r)"

definition first_row_opt :: "'a list option \<Rightarrow> exn + 'a option" where
  "first_row_opt t =
     (case t of
        None \<Rightarrow> Inr None
      | Some rows \<Rightarrow> (case first_row rows of Inl e \<Rightarrow> Inl e | Inr r \<Rightarrow> Inr (Some r)))"

text \<open>
  The probabilities of the response: \<^verbatim>\<open>None\<close> unless the flag is set and the
  prediction returned them; one slice of row 0 per head otherwise. With no head the
  comprehension does not read the tensor.
\<close>

definition response_probs ::
  "bool \<Rightarrow> bool list list \<Rightarrow> 'f list list option \<Rightarrow> exn + 'f list list option" where
  "response_probs return_probs raw_sliced_action_masks flattened_probs =
     (case flattened_probs of
        None \<Rightarrow> Inr None
      | Some t \<Rightarrow>
          if \<not> return_probs then Inr None
          else if raw_sliced_action_masks = [] then Inr (Some [])
          else (case first_row t of
                  Inl e \<Rightarrow> Inl e
                | Inr row \<Rightarrow> Inr (Some (split_probs raw_sliced_action_masks row))))"

definition build_response ::
  "'o InferenceRequest \<Rightarrow> ('f, 'x) prediction \<Rightarrow> exn + ('f, 'x) InferenceResponse" where
  "build_response request prediction =
     (case prediction of (action0, log_probs, entropy0, values0, flattened_probs, ext_results) \<Rightarrow>
        (case action0 of
           None \<Rightarrow> Inl AssertionError
         | Some action_t \<Rightarrow>
        (case response_probs (returnProbs request) (actionMasks request) flattened_probs of
           Inl e \<Rightarrow> Inl e
         | Inr probs0 \<Rightarrow>
        (case first_row action_t of
           Inl e \<Rightarrow> Inl e
         | Inr action_row \<Rightarrow>
        (case first_row_opt log_probs of
           Inl e \<Rightarrow> Inl e
         | Inr logProb0 \<Rightarrow>
        (case first_row_opt entropy0 of
           Inl e \<Rightarrow> Inl e
         | Inr entropy_row \<Rightarrow>
        (case first_row_opt values0 of
           Inl e \<Rightarrow> Inl e
         | Inr values_row \<Rightarrow>
             Inr \<lparr>action = action_row, logProb = logProb0, entropy = entropy_row,
                  values = values_row, probs = probs0,
                  extensionResults = ext_results\<rparr>)))))))"

text \<open>
  \<^verbatim>\<open>_process_request\<close>. \<open>th_tensor\<close> is
  \<^verbatim>\<open>th.tensor([request.obs], dtype=th.float32)\<close>, which raises on a ragged
  observation. The processor is one that \<^verbatim>\<open>create_remote_processor\<close> returned, so its
  pool size is at least 1 and \<^verbatim>\<open>random.randint(0, pool_size - 1)\<close> returns; the number
  it returns is the \<^verbatim>\<open>process_id\<close>, which \<^verbatim>\<open>ThreadedProcessor.predict\<close> does not use.
\<close>

definition process_request ::
  "('o list list list \<Rightarrow> exn + 't) \<Rightarrow> ('t, 'f, 'x) PPO storage \<Rightarrow> server
     \<Rightarrow> ('t, 'f, 'x) PPO processor \<Rightarrow> 'o InferenceRequest
     \<Rightarrow> (exn + ('f, 'x) InferenceResponse) \<times> ('t, 'f, 'x) PPO processor" where
  "process_request th_tensor storage self remote_processor request =
     (let model_name = model request
      in if \<not> dict_contains (models self) model_name
         then (Inl (ValueError (''Unknown model: '' @ model_name @ ''. Available: ''
                                  @ py_str_list (dict_keys (models self)))),
               remote_processor)
         else
           (let raw_sliced_action_masks = actionMasks request;
                raw_action_masks = chain_from_iterable raw_sliced_action_masks
            in case th_tensor [obs request] of
                 Inl e \<Rightarrow> (Inl e, remote_processor)
               | Inr observations \<Rightarrow>
                   (case dict_lookup (models self) model_name of
                      None \<Rightarrow> (Inl (KeyError model_name), remote_processor)
                    | Some model_path \<Rightarrow>
                        (case worker_task storage remote_processor model_path
                                (Some observations) (Some [raw_action_masks])
                                (deterministic request) True (returnLogProb request)
                                (returnEntropy request) (returnValue request)
                                (returnProbs request) (extensions request) of
                           (Inl e, p1) \<Rightarrow> (Inl e, p1)
                         | (Inr prediction, p1) \<Rightarrow> (build_response request prediction, p1)))))"

subsection \<open>Decoding a line and the connection handler\<close>

text \<open>
  What \<^verbatim>\<open>json.loads\<close> returns; numbers are of an arbitrary type \<open>'n\<close>. An object is
  the \<^verbatim>\<open>dict\<close> of its members.
\<close>

datatype 'n json =
    JNull
  | JBool bool
  | JNumber 'n
  | JString string
  | JArray "'n json list"
  | JObject "(string \<times> 'n json) list"

definition field_names :: "string list" where
  "field_names = [''model'', ''actionMasks'', ''obs'', ''deterministic'', ''returnLogProb'',
                  ''returnEntropy'', ''returnValue'', ''returnProbs'', ''extensions'']"

definition required_fields :: "string list" where
  "required_fields = [''model'', ''actionMasks'', ''obs'']"

definition field_default :: "string \<Rightarrow> 'n json" where
  "field_default f = (if f = ''extensions'' then JArray [] else JBool False)"

text \<open>
  \<^verbatim>\<open>InferenceRequest(**request_json)\<close>. The generated \<^verbatim>\<open>__init__\<close> of the dataclass
  binds keyword arguments to the nine fields and checks no types: it raises
  \<^verbatim>\<open>TypeError\<close> for a keyword that is not a field, for a required field without a
  value, and when \<^verbatim>\<open>request_json\<close> is not a mapping. The wording of these messages
  belongs to the interpreter and is an argument. The result holds the value of each
  field, in the order of the declaration.
\<close>

datatype kw_error = UnexpectedKeyword string | MissingArguments "string list" | NotAMapping

definition InferenceRequest_init ::
  "(kw_error \<Rightarrow> string) \<Rightarrow> 'n json \<Rightarrow> exn + (string, 'n json) dict" where
  "InferenceRequest_init wording request_json =
     (case request_json of
        JObject kwargs \<Rightarrow>
          (case filter (\<lambda>k. k \<notin> set field_names) (dict_keys kwargs) of
             k # _ \<Rightarrow> Inl (TypeError (wording (UnexpectedKeyword k)))
           | [] \<Rightarrow>
               (case filter (\<lambda>f. \<not> dict_contains kwargs f) required_fields of
                  m # ms \<Rightarrow> Inl (TypeError (wording (MissingArguments (m # ms))))
                | [] \<Rightarrow>
                    Inr (map (\<lambda>f. (f, case dict_lookup kwargs f of
                                         Some v \<Rightarrow> v
                                       | None \<Rightarrow> field_default f))
                             field_names)))
      | _ \<Rightarrow> Inl (TypeError (wording NotAMapping)))"

text \<open>
  The body of the inner \<^verbatim>\<open>try\<close> of \<^verbatim>\<open>_handle_client\<close> up to the encoded response
  line. \<open>loads\<close> is \<^verbatim>\<open>json.loads\<close>, \<open>process\<close> is \<^verbatim>\<open>_process_request\<close> on the
  constructed request together with the state it changes, and \<open>dumps\<close> is
  \<^verbatim>\<open>json.dumps(dataclasses.asdict(response))\<close>.
\<close>

definition request_pipeline ::
  "(string \<Rightarrow> exn + 'n json) \<Rightarrow> (kw_error \<Rightarrow> string)
     \<Rightarrow> ((string, 'n json) dict \<Rightarrow> 'st \<Rightarrow> (exn + 'r) \<times> 'st) \<Rightarrow> ('r \<Rightarrow> exn + string)
     \<Rightarrow> string \<Rightarrow> 'st \<Rightarrow> (exn + string) \<times> 'st" where
  "request_pipeline loads wording process dumps request_line st =
     (case loads request_line of
        Inl e \<Rightarrow> (Inl e, st)
      | Inr request_json \<Rightarrow>
          (case InferenceRequest_init wording request_json of
             Inl e \<Rightarrow> (Inl e, st)
           | Inr request \<Rightarrow>
               (case process request st of
                  (Inl e, st1) \<Rightarrow> (Inl e, st1)
                | (Inr response, st1) \<Rightarrow>
                    (case dumps response of
                       Inl e \<Rightarrow> (Inl e, st1)
                     | Inr response_json \<Rightarrow> (Inr (response_json @ [nl]), st1)))))"

text \<open>
  A connection: what the coming \<^verbatim>\<open>readline\<close> calls return (after the last of them
  the stream is at its end and \<^verbatim>\<open>readline\<close> returns the empty bytes), the lines
  passed to \<^verbatim>\<open>writer.write\<close>, whether the handler has left its loop and closed the
  writer, and the state of the processor. \<open>drain k\<close> is the exception that
  \<^verbatim>\<open>writer.drain()\<close> raises after the write number \<open>k\<close>, if any.
\<close>

datatype read_result = Line string | ReadFails exn

record 'st connection =
  h_inbound :: "read_result list"
  h_written :: "string list"
  h_closed :: bool
  h_state :: 'st

definition write_drain ::
  "(nat \<Rightarrow> exn option) \<Rightarrow> 'st connection \<Rightarrow> string \<Rightarrow> exn option \<times> 'st connection" where
  "write_drain drain conn line =
     (drain (length (h_written conn)), conn\<lparr>h_written := h_written conn @ [line]\<rparr>)"

text \<open>
  One turn of the \<^verbatim>\<open>while True\<close> loop. An exception of the body of the inner
  \<^verbatim>\<open>try\<close>, which includes the write of the response, is answered with the error
  line; an exception of \<^verbatim>\<open>readline\<close> or of the write of the error line leaves the
  loop.
\<close>

definition handle_turn ::
  "(nat \<Rightarrow> exn option) \<Rightarrow> (string \<Rightarrow> 'st \<Rightarrow> (exn + string) \<times> 'st)
     \<Rightarrow> 'st connection \<Rightarrow> 'st connection" where
  "handle_turn drain handle_request conn =
     (case h_inbound conn of
        [] \<Rightarrow> conn\<lparr>h_closed := True\<rparr>
      | ReadFails e # rest \<Rightarrow> conn\<lparr>h_inbound := rest, h_closed := True\<rparr>
      | Line request_line # rest \<Rightarrow>
          if request_line = [] then conn\<lparr>h_inbound := rest, h_closed := True\<rparr>
          else
            (case handle_request request_line (h_state conn) of (result, st1) \<Rightarrow>
               (let conn1 = conn\<lparr>h_inbound := rest, h_state := st1\<rparr>;
                    (failure, conn2) =
                      (case result of
                         Inl e \<Rightarrow> (Some e, conn1)
                       | Inr response_line \<Rightarrow> write_drain drain conn1 response_line)
                in case failure of
                     None \<Rightarrow> conn2
                   | Some e \<Rightarrow>
                       (case write_drain drain conn2 (error_line e) of
                          (None, conn3) \<Rightarrow> conn3
                        | (Some e2, conn3) \<Rightarrow> conn3\<lparr>h_closed := True\<rparr>))))"

function handle_client ::
  "(nat \<Rightarrow> exn option) \<Rightarrow> (string \<Rightarrow> 'st \<Rightarrow> (exn + string) \<times> 'st)
     \<Rightarrow> 'st connection \<Rightarrow> 'st connection" where
  "handle_client drain handle_request conn =
     (if h_closed conn then conn
      else handle_client drain handle_request (handle_turn drain handle_request conn))"
  by pat_completeness auto
termination
proof (relation "measure (\<lambda>(drain, handle_request, conn).
                   if h_closed conn then 0 else Suc (length (h_inbound conn)))")
  show "wf (measure (\<lambda>(drain :: nat \<Rightarrow> exn option,
                       handle_request :: string \<Rightarrow> 'st \<Rightarrow> (exn + string) \<times> 'st,
                       conn :: 'st connection).
                   if h_closed conn then 0 else Suc (length (h_inbound conn))))"
    by simp
next
  fix drain :: "nat \<Rightarrow> exn option"
    and handle_request :: "string \<Rightarrow> 'st \<Rightarrow> (exn + string) \<times> 'st"
    and conn :: "'st connection"
  assume "\<not> h_closed conn"
  then show "((drain, handle_request, handle_turn drain handle_request conn),
              (drain, handle_request, conn))
           \<in> measure (\<lambda>(drain, handle_request, conn).
                   if h_closed conn then 0 else Suc (length (h_inbound conn)))"
    by (auto simp: handle_turn_def write_drain_def Let_def
             split: list.splits read_result.splits prod.splits sum.splits option.splits)
qed

subsection \<open>Sample arguments for the evaluations\<close>

text \<open>A storage without files, and a storage with one readable model file.\<close>

definition empty_storage :: "'m storage" where
  "empty_storage load_path = None"

definition single_storage :: "string \<Rightarrow> 'm \<Rightarrow> 'm storage" where
  "single_storage path m load_path = (if load_path = path then Some (\<lambda>device. Inr m) else None)"

text \<open>
  A server whose catalog holds the one name \<^verbatim>\<open>bronze_agility\<close>, a request that names
  \<^verbatim>\<open>iron_agility\<close>, and a tensor constructor that accepts every observation.
\<close>

definition bronze_server :: server where
  "bronze_server =
     \<lparr>host = ''127.0.0.1'', port = 9999, pool_size = 1, processor_type = ''thread'',
      device = ''cpu'', models = [(''bronze_agility'', ''models/bronze_agility.zip'')]\<rparr>"

definition plain_request :: "string \<Rightarrow> unit InferenceRequest" where
  "plain_request name =
     \<lparr>model = name, actionMasks = [[True, True, False], [False, True]], obs = [[(), ()]],
      deterministic = DetBool False, returnLogProb = False, returnEntropy = False,
      returnValue = False, returnProbs = False, extensions = []\<rparr>"

definition any_tensor :: "unit list list list \<Rightarrow> exn + unit" where
  "any_tensor frames = Inr ()"

text \<open>
  A file system without the models directory, and a model whose network returns the same
  outputs for every input: two heads, of three and of two actions.
\<close>

definition no_directory :: "string \<Rightarrow> (exn + string list) option" where
  "no_directory path = None"

definition sample_network :: "unit \<Rightarrow> bool list list \<Rightarrow> bool list \<Rightarrow> exn + int policy_out" where
  "sample_network observations action_masks sample_deterministic =
     Inr \<lparr>out_actions = [[1, 0]], out_log_probs = [- 2], out_entropy = [[3, 4]],
          out_values = [[5]], out_probs = [[10, 20, 30, 40, 50]]\<rparr>"

definition sample_ppo :: "(unit, int, unit) PPO" where
  "sample_ppo =
     \<lparr>action_head_sizes = [3, 2], normalized_observations = False, normalize = id,
      network = sample_network, ppo_extensions = []\<rparr>"

text \<open>
  A decoder that knows two lines: a request with the three required fields, and the same
  request with one more field; every other line is refused as \<^verbatim>\<open>json.loads\<close>
  refuses a text that is not JSON. With it, the wording of CPython 3.12 for the errors of
  the constructor, a request processor that answers every request, and an encoder of its
  answer.
\<close>

definition sample_line :: string where
  "sample_line = ''{'' @ [dq] @ ''model'' @ [dq] @ '': '' @ [dq] @ ''m'' @ [dq] @ '', '' @ [dq]
       @ ''actionMasks'' @ [dq] @ '': [], '' @ [dq] @ ''obs'' @ [dq] @ '': []}'' @ [nl]"

definition sample_line_extra :: string where
  "sample_line_extra = ''{'' @ [dq] @ ''model'' @ [dq] @ '': '' @ [dq] @ ''m'' @ [dq] @ '', '' @ [dq]
       @ ''actionMasks'' @ [dq] @ '': [], '' @ [dq] @ ''obs'' @ [dq] @ '': [], '' @ [dq]
       @ ''seed'' @ [dq] @ '': null}'' @ [nl]"

definition sample_loads :: "string \<Rightarrow> exn + unit json" where
  "sample_loads request_line =
     (if request_line = sample_line
      then Inr (JObject [(''model'', JString ''m''), (''actionMasks'', JArray []),
                         (''obs'', JArray [])])
      else if request_line = sample_line_extra
      then Inr (JObject [(''model'', JString ''m''), (''actionMasks'', JArray []),
                         (''obs'', JArray []), (''seed'', JNull)])
      else Inl (OtherError ''Expecting value: line 1 column 1 (char 0)''))"

definition sample_wording :: "kw_error \<Rightarrow> string" where
  "sample_wording err =
     (case err of
        UnexpectedKeyword k \<Rightarrow>
          ''InferenceRequest.__init__() got an unexpected keyword argument '' @ [sq] @ k @ [sq]
      | MissingArguments ks \<Rightarrow>
          ''InferenceRequest.__init__() missing required positional arguments''
      | NotAMapping \<Rightarrow>
          ''osrs_backend.tcp.protocol.InferenceRequest() argument after ** must be a mapping'')"

definition sample_process :: "(string, unit json) dict \<Rightarrow> nat \<Rightarrow> (exn + unit) \<times> nat" where
  "sample_process request served = (Inr (), Suc served)"

definition sample_dumps :: "unit \<Rightarrow> exn + string" where
  "sample_dumps response = Inr (''{'' @ [dq] @ ''action'' @ [dq] @ '': []}'')"

definition no_failure :: "nat \<Rightarrow> exn option" where
  "no_failure k = None"

section \<open>Verified properties\<close>

subsection \<open>Flatten and split\<close>

lemma accumulate_from_nth:
  "i < length xs \<Longrightarrow> accumulate_from t xs ! i = t + sum_list (take (Suc i) xs)"
proof (induction xs arbitrary: t i)
  case Nil then show ?case by simp
next
  case (Cons x xs)
  show ?case
  proof (cases i)
    case 0 then show ?thesis by simp
  next
    case (Suc j)
    with Cons.prems have "j < length xs" by simp
    from Cons.IH[OF this, of "t + x"] Suc show ?thesis by (simp add: add.assoc)
  qed
qed

lemma length_accumulate_from: "length (accumulate_from t xs) = length xs"
  by (induction xs arbitrary: t) auto

lemma accumulate_eq: "accumulate xs = accumulate_from 0 xs"
  by (cases xs) (auto simp: accumulate_def)

lemma cumulative_sizes_nth:
  "i \<le> length sizes \<Longrightarrow> cumulative_sizes sizes ! i = sum_list (take i sizes)"
  by (cases i) (auto simp: cumulative_sizes_def accumulate_eq accumulate_from_nth)

lemma length_cumulative_sizes: "length (cumulative_sizes sizes) = Suc (length sizes)"
  by (simp add: cumulative_sizes_def accumulate_eq length_accumulate_from)

lemma slices_split_by:
  "map (\<lambda>i. py_slice row (sum_list (take i ns)) (sum_list (take (Suc i) ns))) [0..<length ns]
     = split_by ns row"
proof (induction ns arbitrary: row)
  case Nil then show ?case by simp
next
  case (Cons n ns)
  have shift: "\<And>i. py_slice row (n + sum_list (take i ns)) (n + sum_list (take (Suc i) ns))
      = py_slice (drop n row) (sum_list (take i ns)) (sum_list (take (Suc i) ns))"
    by (simp add: py_slice_def take_drop add.commute)
  let ?f = "\<lambda>i. py_slice row (sum_list (take i (n # ns))) (sum_list (take (Suc i) (n # ns)))"
  have "map ?f [0..<length (n # ns)] = ?f 0 # map (\<lambda>i. ?f (Suc i)) [0..<length ns]"
    using map_upt_Suc[of ?f "length ns"] by simp
  also have "\<dots> = py_slice row 0 n # map (\<lambda>i. py_slice row (n + sum_list (take i ns))
             (n + sum_list (take (Suc i) ns))) [0..<length ns]"
    by simp
  also have "\<dots> = take n row # split_by ns (drop n row)"
  proof -
    have "py_slice row 0 n = take n row" by (simp add: py_slice_def)
    then show ?thesis using Cons.IH[of "drop n row"] by (simp only: shift)
  qed
  finally show ?case by simp
qed

lemma split_probs_split_by: "split_probs masks row = split_by (map length masks) row"
proof -
  have "split_probs masks row =
     map (\<lambda>i. py_slice row (sum_list (take i (map length masks)))
               (sum_list (take (Suc i) (map length masks)))) [0..<length (map length masks)]"
    unfolding split_probs_def Let_def
    by (rule map_cong) (auto simp: cumulative_sizes_nth)
  then show ?thesis by (simp only: slices_split_by)
qed

lemma split_by_concat: "split_by (map length gs) (concat gs) = gs"
  by (induction gs) auto

lemma concat_split_by: "length row = sum_list ns \<Longrightarrow> concat (split_by ns row) = row"
  by (induction ns arbitrary: row) auto

lemma lengths_split_by: "length row = sum_list ns \<Longrightarrow> map length (split_by ns row) = ns"
  by (induction ns arbitrary: row) auto

lemma cumulative_sizes_324: "cumulative_sizes [3, 2, 4] = [0, 3, 5, 9]"
  by (simp add: cumulative_sizes_def accumulate_def)

text \<open>
  Claim C3. For per-head masks of lengths \<open>n1, ..., nk\<close> and any payload whose length is
  \<open>n1 + ... + nk\<close>, the boundaries are the partial sums \<open>0, n1, n1 + n2, ...\<close>, the
  split has one group per head with that head's length, the groups concatenated give the
  payload back, and any grouping with those lengths that flattens to the payload is the
  one the split returns.
\<close>

theorem flatten_split_round_trip:
  assumes "length payload = sum_list (map length raw_sliced_action_masks)"
  shows "cumulative_sizes (map length raw_sliced_action_masks)
           = map (\<lambda>k. sum_list (take k (map length raw_sliced_action_masks)))
               [0..<Suc (length raw_sliced_action_masks)]
       \<and> map length (split_probs raw_sliced_action_masks payload)
           = map length raw_sliced_action_masks
       \<and> chain_from_iterable (split_probs raw_sliced_action_masks payload) = payload
       \<and> (\<forall>groups. map length groups = map length raw_sliced_action_masks
              \<and> chain_from_iterable groups = payload
            \<longrightarrow> split_probs raw_sliced_action_masks payload = groups)"
proof -
  let ?ns = "map length raw_sliced_action_masks"
  have bounds: "cumulative_sizes ?ns = map (\<lambda>k. sum_list (take k ?ns)) [0..<Suc (length raw_sliced_action_masks)]"
  proof (rule nth_equalityI)
    show "length (cumulative_sizes ?ns)
        = length (map (\<lambda>k. sum_list (take k ?ns)) [0..<Suc (length raw_sliced_action_masks)])"
      by (simp add: length_cumulative_sizes)
  next
    fix i assume "i < length (cumulative_sizes ?ns)"
    then have i: "i \<le> length ?ns" by (simp add: length_cumulative_sizes)
    then have "i < Suc (length raw_sliced_action_masks)" by simp
    then have "map (\<lambda>k. sum_list (take k ?ns)) [0..<Suc (length raw_sliced_action_masks)] ! i
        = sum_list (take i ?ns)"
      by (simp only: nth_map_upt diff_zero add_0)
    with cumulative_sizes_nth[OF i] show "cumulative_sizes ?ns ! i
        = map (\<lambda>k. sum_list (take k ?ns)) [0..<Suc (length raw_sliced_action_masks)] ! i"
      by simp
  qed
  have lens: "map length (split_probs raw_sliced_action_masks payload) = ?ns"
    using assms by (simp add: split_probs_split_by lengths_split_by)
  have cat: "chain_from_iterable (split_probs raw_sliced_action_masks payload) = payload"
    using assms by (simp add: split_probs_split_by concat_split_by chain_from_iterable_def)
  have uniq: "split_probs raw_sliced_action_masks payload = groups"
    if "map length groups = ?ns" "chain_from_iterable groups = payload" for groups
    using that split_by_concat[of groups]
    by (simp add: split_probs_split_by chain_from_iterable_def)
  from bounds lens cat uniq show ?thesis by blast
qed

theorem flatten_split_round_trip_witness:
  "cumulative_sizes (map length [[True, True, False], [False, True], [True, True, True, True]])
       = [0, 3, 5, 9]
   \<and> split_probs [[True, True, False], [False, True], [True, True, True, True]]
         [10, 20, 30, 40, 50, 60, 70, 80, 90 :: nat]
       = [[10, 20, 30], [40, 50], [60, 70, 80, 90]]"
proof -
  let ?masks = "[[True, True, False], [False, True], [True, True, True, True]]"
  let ?payload = "[10, 20, 30, 40, 50, 60, 70, 80, 90 :: nat]"
  have len: "length ?payload = sum_list (map length ?masks)" by simp
  have "map length [[10, 20, 30], [40, 50], [60, 70, 80, 90 :: nat]] = map length ?masks
      \<and> chain_from_iterable [[10, 20, 30], [40, 50], [60, 70, 80, 90 :: nat]] = ?payload"
    by (simp add: chain_from_iterable_def)
  with flatten_split_round_trip[OF len]
  have "split_probs ?masks ?payload = [[10, 20, 30], [40, 50], [60, 70, 80, 90]]"
    by blast
  moreover have "map length ?masks = [3, 2, 4]" by simp
  then have "cumulative_sizes (map length ?masks) = [0, 3, 5, 9]"
    by (simp only: cumulative_sizes_324)
  ultimately show ?thesis by simp
qed

subsection \<open>The catalog scan\<close>

lemma rfind_absent: "c \<notin> set s \<Longrightarrow> rfind s c = - 1"
  by (simp add: rfind_def)

lemma rfind_last: "c \<notin> set t \<Longrightarrow> rfind (s @ c # t) c = int (length s)"
proof -
  assume a: "c \<notin> set t"
  then have "takeWhile (\<lambda>x. x \<noteq> c) (rev t @ c # rev s) = rev t"
    by (auto simp: takeWhile_append2 takeWhile_tail)
  then show ?thesis by (simp add: rfind_def)
qed

lemma endswith_zip_split:
  "endswith f ''.zip'' \<Longrightarrow> f = take (length f - 4) f @ ''.zip''"
proof -
  assume "endswith f ''.zip''"
  moreover have "length ''.zip'' = 4" by simp
  ultimately have "drop (length f - 4) f = ''.zip''" by (simp only: endswith_def)
  with append_take_drop_id[of "length f - 4" f] show ?thesis by simp
qed

lemma endswith_append: "endswith (p @ suffix) suffix"
  by (simp add: endswith_def)

lemma splitext_root_zip:
  assumes "CHR ''/'' \<notin> set p"
  shows "splitext_root (p @ ''.zip'')
       = (if \<exists>c\<in>set p. c \<noteq> CHR ''.'' then p else p @ ''.zip'')"
proof -
  have sep: "rfind (p @ ''.zip'') (CHR ''/'') = - 1"
    using assms by (simp add: rfind_absent)
  have dot: "rfind (p @ ''.zip'') (CHR ''.'') = int (length p)"
    using rfind_last[of "CHR ''.''" "''zip''" p] by simp
  show ?thesis
    by (simp add: splitext_root_def sep dot py_slice_def list_ex_iff)
qed

lemma map_of_dict_setitem: "map_of (dict_setitem d k v) = (map_of d)(k \<mapsto> v)"
proof (cases "dict_contains d k")
  case True
  have "map_of (map (\<lambda>(k', v'). if k' = k then (k', v) else (k', v')) d) = (map_of d)(k \<mapsto> v)"
    if "k \<in> fst ` set d" for d :: "('a \<times> 'b) list"
    using that
  proof (induction d)
    case Nil then show ?case by simp
  next
    case (Cons a d)
    obtain k' v' where a: "a = (k', v')" by (cases a)
    show ?case
    proof (cases "k \<in> fst ` set d")
      case True
      with Cons.IH a show ?thesis by (auto simp: fun_eq_iff)
    next
      case False
      then have "map (\<lambda>(k', v'). if k' = k then (k', v) else (k', v')) d = d"
        by (induction d) auto
      with Cons.prems False a show ?thesis by (auto simp: fun_eq_iff)
    qed
  qed
  with True show ?thesis by (simp add: dict_setitem_def dict_contains_def dict_keys_def)
next
  case False
  then have "map_of d k = None"
    by (simp add: dict_contains_def dict_keys_def map_of_eq_None_iff)
  with False show ?thesis
    by (auto simp: dict_setitem_def fun_eq_iff map_add_def split: option.splits)
qed

lemma keys_dict_setitem:
  "dict_keys (dict_setitem d k v) = (if dict_contains d k then dict_keys d else dict_keys d @ [k])"
  by (auto simp: dict_setitem_def dict_keys_def dict_contains_def split: prod.splits)


lemma lookup_comprehension:
  "map_of (fold (\<lambda>f d. dict_setitem d (key f) (val f)) xs d) n
     = (case find (\<lambda>f. key f = n) (rev xs) of Some f \<Rightarrow> Some (val f) | None \<Rightarrow> map_of d n)"
proof (induction xs rule: rev_induct)
  case Nil then show ?case by simp
next
  case (snoc x xs)
  then show ?case by (simp add: map_of_dict_setitem)
qed

lemma keys_comprehension:
  "set (dict_keys (fold (\<lambda>f d. dict_setitem d (key f) (val f)) xs d)) = key ` set xs \<union> set (dict_keys d)"
proof (induction xs rule: rev_induct)
  case Nil then show ?case by simp
next
  case (snoc x xs)
  then show ?case by (auto simp: keys_dict_setitem dict_contains_def)
qed

lemma comprehension_distinct:
  "distinct (map key xs) \<Longrightarrow> key ` set xs \<inter> set (dict_keys d) = {} \<Longrightarrow>
   fold (\<lambda>f d. dict_setitem d (key f) (val f)) xs d = d @ map (\<lambda>f. (key f, val f)) xs"
proof (induction xs arbitrary: d)
  case Nil then show ?case by simp
next
  case (Cons x xs)
  have step: "dict_setitem d (key x) (val x) = d @ [(key x, val x)]"
    using Cons.prems(2) by (auto simp: dict_setitem_def dict_contains_def)
  have "key ` set xs \<inter> set (dict_keys (d @ [(key x, val x)])) = {}"
    using Cons.prems by (auto simp: dict_keys_def)
  with Cons.IH[of "d @ [(key x, val x)]"] Cons.prems(1) step show ?case by simp
qed

lemma find_filter: "find P (filter Q xs) = find (\<lambda>x. Q x \<and> P x) xs"
  by (induction xs) auto

text \<open>
  Claim C6, as the code has it. For a listing of distinct file names, none containing a
  slash: a name is in the catalog exactly when it is \<^verbatim>\<open>os.path.splitext(f)[0]\<close> of a
  listed file \<open>f\<close> ending in \<^verbatim>\<open>.zip\<close>, and it is mapped to the path of the last such
  file in the listing; that name is the file name without \<^verbatim>\<open>.zip\<close> when a character
  other than a dot precedes the extension, and the whole file name otherwise; and when
  every listed \<^verbatim>\<open>.zip\<close> file has such a character, the catalog is, in listing order,
  one entry per \<^verbatim>\<open>.zip\<close> file, from the name without the extension to the path.
\<close>

theorem scan_models_catalog:
  assumes "distinct listing" and "\<forall>f\<in>set listing. CHR ''/'' \<notin> set f"
  shows "dict_lookup (scan_models joinp listing) name
           = map_option joinp
               (find (\<lambda>f. endswith f ''.zip'' \<and> splitext_root f = name) (rev listing))
       \<and> set (dict_keys (scan_models joinp listing))
           = splitext_root ` {f \<in> set listing. endswith f ''.zip''}
       \<and> (\<forall>f\<in>set listing. endswith f ''.zip'' \<longrightarrow>
             splitext_root f
               = (if \<exists>c\<in>set (take (length f - 4) f). c \<noteq> CHR ''.''
                  then take (length f - 4) f else f))
       \<and> ((\<forall>f\<in>set listing. endswith f ''.zip'' \<longrightarrow>
               (\<exists>c\<in>set (take (length f - 4) f). c \<noteq> CHR ''.''))
            \<longrightarrow> scan_models joinp listing
                  = map (\<lambda>f. (take (length f - 4) f, joinp f))
                      (filter (\<lambda>f. endswith f ''.zip'') listing))"
proof -
  let ?zips = "filter (\<lambda>f. endswith f ''.zip'') listing"
  let ?stem = "\<lambda>f::string. take (length f - 4) f"
  have look: "dict_lookup (scan_models joinp listing) name
      = map_option joinp
          (find (\<lambda>f. endswith f ''.zip'' \<and> splitext_root f = name) (rev listing))"
    unfolding dict_lookup_def scan_models_def lookup_comprehension
    by (simp add: rev_filter find_filter split: option.splits)
  have keys: "set (dict_keys (scan_models joinp listing))
      = splitext_root ` {f \<in> set listing. endswith f ''.zip''}"
    unfolding scan_models_def keys_comprehension by (simp add: dict_keys_def)
  have root: "splitext_root f = (if \<exists>c\<in>set (?stem f). c \<noteq> CHR ''.'' then ?stem f else f)"
    if "f \<in> set listing" "endswith f ''.zip''" for f
  proof -
    from that(2) have f: "f = ?stem f @ ''.zip''" by (rule endswith_zip_split)
    from that(1) assms(2) have "CHR ''/'' \<notin> set f" by blast
    with f have "CHR ''/'' \<notin> set (?stem f)" by (metis Un_iff set_append)
    from splitext_root_zip[OF this] f show ?thesis by simp
  qed
  have exact: "scan_models joinp listing = map (\<lambda>f. (?stem f, joinp f)) ?zips"
    if normal: "\<forall>f\<in>set listing. endswith f ''.zip'' \<longrightarrow> (\<exists>c\<in>set (?stem f). c \<noteq> CHR ''.'')"
  proof -
    have eq: "splitext_root f = ?stem f" if "f \<in> set ?zips" for f
      using that root[of f] normal by auto
    have "inj_on ?stem (set ?zips)"
    proof (rule inj_onI)
      fix f g assume "f \<in> set ?zips" "g \<in> set ?zips" "?stem f = ?stem g"
      then show "f = g"
        using endswith_zip_split[of f] endswith_zip_split[of g] by auto
    qed
    moreover have "distinct ?zips" using assms(1) by simp
    ultimately have dst: "distinct (map ?stem ?zips)" by (simp add: distinct_map)
    have mapeq: "map splitext_root ?zips = map ?stem ?zips"
      unfolding map_eq_conv using eq by blast
    have "distinct (map splitext_root ?zips)"
      unfolding mapeq by (rule dst)
    then have "scan_models joinp listing = map (\<lambda>f. (splitext_root f, joinp f)) ?zips"
      unfolding scan_models_def
      using comprehension_distinct[of splitext_root ?zips "[]" joinp]
      by (simp add: dict_keys_def)
    also have "\<dots> = map (\<lambda>f. (?stem f, joinp f)) ?zips"
      unfolding map_eq_conv using eq by simp
    finally show ?thesis .
  qed
  from look keys root exact show ?thesis by blast
qed

theorem scan_models_catalog_witness:
  "scan_models (posix_join ''models'') [''bronze_agility.zip'', ''notes.txt'', ''iron.v2.zip'']
     = [(''bronze_agility'', ''models/bronze_agility.zip''), (''iron.v2'', ''models/iron.v2.zip'')]
   \<and> dict_lookup
        (scan_models (posix_join ''models'') [''bronze_agility.zip'', ''notes.txt'', ''iron.v2.zip''])
        ''notes'' = None"
proof -
  let ?listing = "[''bronze_agility.zip'', ''notes.txt'', ''iron.v2.zip'']"
  have d: "distinct ?listing" by simp
  have s: "\<forall>f\<in>set ?listing. CHR ''/'' \<notin> set f" by simp
  have n: "\<forall>f\<in>set ?listing. endswith f ''.zip'' \<longrightarrow>
             (\<exists>c\<in>set (take (length f - 4) f). c \<noteq> CHR ''.'')"
    by (simp add: endswith_def)
  note T = scan_models_catalog[OF d s, of "posix_join ''models''" "''notes''"]
  from T n have "scan_models (posix_join ''models'') ?listing
      = map (\<lambda>f. (take (length f - 4) f, posix_join ''models'' f))
          (filter (\<lambda>f. endswith f ''.zip'') ?listing)"
    by blast
  moreover from T have "dict_lookup (scan_models (posix_join ''models'') ?listing) ''notes''
      = map_option (posix_join ''models'')
          (find (\<lambda>f. endswith f ''.zip'' \<and> splitext_root f = ''notes'') (rev ?listing))"
    by blast
  ultimately show ?thesis
    by (simp add: endswith_def posix_join_def splitext_root_def rfind_def py_slice_def)
qed

text \<open>
  The claim as the specification words it fails on a file named \<^verbatim>\<open>.zip\<close>: it ends
  with the extension, the name with the extension removed is empty, and the catalog has
  no entry under the empty name; the entry is under \<^verbatim>\<open>.zip\<close>.
\<close>

theorem scan_models_dotfile_counterexample:
  "endswith ''.zip'' ''.zip''
   \<and> dict_lookup (scan_models (posix_join ''models'') [''.zip'']) (take (length ''.zip'' - 4) ''.zip'')
       = None
   \<and> scan_models (posix_join ''models'') [''.zip''] = [(''.zip'', ''models/.zip'')]"
  by (simp add: scan_models_def endswith_def splitext_root_def rfind_def py_slice_def
      dict_setitem_def dict_contains_def dict_keys_def dict_lookup_def posix_join_def)

subsection \<open>A failed load\<close>

lemma find_or_create_lock_fields:
  "p_models (find_or_create_lock self model_path) = p_models self"
  "p_device (find_or_create_lock self model_path) = p_device self"
  "p_pool_size (find_or_create_lock self model_path) = p_pool_size self"
  "p_load_calls (find_or_create_lock self model_path) = p_load_calls self"
  by (simp_all add: find_or_create_lock_def)

lemma clean_up_lock_fields:
  "p_models (clean_up_lock self model_path) = p_models self"
  "p_device (clean_up_lock self model_path) = p_device self"
  "p_pool_size (clean_up_lock self model_path) = p_pool_size self"
  "p_load_calls (clean_up_lock self model_path) = p_load_calls self"
  by (simp_all add: clean_up_lock_def)

lemma store_model_fields:
  "p_models (store_model self model_path m)
     = (p_models self)(model_path \<mapsto> (length (p_load_calls self), m))"
  "p_device (store_model self model_path m) = p_device self"
  "p_pool_size (store_model self model_path m) = p_pool_size self"
  "p_load_calls (store_model self model_path m) = p_load_calls self @ [model_path]"
  by (simp_all add: store_model_def)

lemma load_model_absent:
  assumes "model_path \<notin> dom (p_models self)"
  shows "load_model storage self model_path =
     (case PPO_load storage model_path (p_device self) of
        Inl e \<Rightarrow> (Inl e, (find_or_create_lock self model_path)
                          \<lparr>p_load_calls := p_load_calls self @ [model_path]\<rparr>)
      | Inr m \<Rightarrow>
          (Inr (length (p_load_calls self), m),
           clean_up_lock (store_model (find_or_create_lock self model_path) model_path m)
             model_path))"
proof -
  let ?s1 = "find_or_create_lock self model_path"
  have s1: "p_models ?s1 = p_models self" "p_device ?s1 = p_device self"
    "p_load_calls ?s1 = p_load_calls self"
    by (simp_all add: find_or_create_lock_def)
  have ret: "return_model (clean_up_lock (store_model ?s1 model_path m) model_path) model_path
      = Inr (length (p_load_calls self), m)" for m
    by (simp add: return_model_def clean_up_lock_def store_model_def s1)
  show ?thesis
    using assms by (simp add: load_model_def Let_def s1 ret split: sum.splits)
qed

lemma load_model_present:
  assumes "p_models self model_path = Some handle"
  shows "load_model storage self model_path = (Inr handle, self)"
  using assms by (auto simp: load_model_def return_model_def)

text \<open>
  Claim C8. When the location is not cached and \<^verbatim>\<open>PPO.load\<close> raises, \<^verbatim>\<open>_load_model\<close>
  raises that exception (the \<^verbatim>\<open>ValueError\<close> "not found" when the path is missing),
  the map of loaded models is unchanged and the location still absent, and one call of
  \<^verbatim>\<open>PPO.load\<close> was made. A later call for the same location, whatever the storage
  then holds, calls \<^verbatim>\<open>PPO.load\<close> again: it raises what that call raises, or returns
  and caches the model that call returns.
\<close>

theorem failed_load_is_not_cached:
  assumes "model_path \<notin> dom (p_models self)"
    and "PPO_load storage model_path (p_device self) = Inl e"
  shows "fst (load_model storage self model_path) = Inl e
       \<and> (storage model_path = None \<longrightarrow> e = ValueError (model_path @ '' not found''))
       \<and> p_models (snd (load_model storage self model_path)) = p_models self
       \<and> model_path \<notin> dom (p_models (snd (load_model storage self model_path)))
       \<and> p_load_calls (snd (load_model storage self model_path))
           = p_load_calls self @ [model_path]
       \<and> (\<forall>storage2.
             p_load_calls (snd (load_model storage2 (snd (load_model storage self model_path))
                                  model_path))
               = p_load_calls self @ [model_path, model_path]
           \<and> (\<forall>e2. PPO_load storage2 model_path (p_device self) = Inl e2 \<longrightarrow>
                 fst (load_model storage2 (snd (load_model storage self model_path)) model_path)
                   = Inl e2)
           \<and> (\<forall>m. PPO_load storage2 model_path (p_device self) = Inr m \<longrightarrow>
                 fst (load_model storage2 (snd (load_model storage self model_path)) model_path)
                   = Inr (Suc (length (p_load_calls self)), m)
               \<and> p_models (snd (load_model storage2 (snd (load_model storage self model_path))
                                  model_path)) model_path
                   = Some (Suc (length (p_load_calls self)), m)))"
proof -
  let ?s1 = "(find_or_create_lock self model_path)\<lparr>p_load_calls := p_load_calls self @ [model_path]\<rparr>"
  have first: "load_model storage self model_path = (Inl e, ?s1)"
    using load_model_absent[OF assms(1), of storage] assms(2) by simp
  have s1: "p_models ?s1 = p_models self" "p_device ?s1 = p_device self"
    "p_load_calls ?s1 = p_load_calls self @ [model_path]"
    by (simp_all add: find_or_create_lock_def)
  have absent: "model_path \<notin> dom (p_models ?s1)"
    using assms(1) by (simp add: find_or_create_lock_def)
  have missing: "e = ValueError (model_path @ '' not found'')" if "storage model_path = None"
    using that assms(2) by (simp add: PPO_load_def)
  have second: "load_model storage2 ?s1 model_path =
     (case PPO_load storage2 model_path (p_device self) of
        Inl e2 \<Rightarrow> (Inl e2, (find_or_create_lock ?s1 model_path)
                          \<lparr>p_load_calls := p_load_calls self @ [model_path, model_path]\<rparr>)
      | Inr m \<Rightarrow>
          (Inr (Suc (length (p_load_calls self)), m),
           clean_up_lock (store_model (find_or_create_lock ?s1 model_path) model_path m)
             model_path))" for storage2
    unfolding load_model_absent[OF absent, of storage2]
    by (simp add: find_or_create_lock_fields split: sum.splits)
  have calls: "p_load_calls (snd (load_model storage2 ?s1 model_path))
      = p_load_calls self @ [model_path, model_path]" for storage2
    unfolding second
    by (simp add: find_or_create_lock_fields clean_up_lock_fields store_model_fields
             split: sum.splits)
  have again: "fst (load_model storage2 ?s1 model_path) = Inl e2"
    if "PPO_load storage2 model_path (p_device self) = Inl e2" for storage2 e2
    unfolding second using that by simp
  have cached: "fst (load_model storage2 ?s1 model_path)
        = Inr (Suc (length (p_load_calls self)), m)
      \<and> p_models (snd (load_model storage2 ?s1 model_path)) model_path
        = Some (Suc (length (p_load_calls self)), m)"
    if "PPO_load storage2 model_path (p_device self) = Inr m" for storage2 m
    unfolding second using that
    by (simp add: find_or_create_lock_fields clean_up_lock_fields store_model_fields)
  show ?thesis
    unfolding first fst_conv snd_conv
    using s1(1) absent s1(3) missing calls again cached by blast
qed

theorem failed_load_is_not_cached_witness:
  "fst (load_model (empty_storage :: unit storage) (ThreadedProcessor_init 1 ''cpu'') ''models/a.zip'')
     = Inl (ValueError ''models/a.zip not found'')
   \<and> fst (load_model (single_storage ''models/a.zip'' ())
            (snd (load_model empty_storage (ThreadedProcessor_init 1 ''cpu'') ''models/a.zip''))
            ''models/a.zip'')
     = Inr (1, ())"
proof -
  let ?self = "ThreadedProcessor_init 1 ''cpu'' :: unit processor"
  have a: "''models/a.zip'' \<notin> dom (p_models ?self)"
    by (simp add: ThreadedProcessor_init_def)
  have b: "PPO_load (empty_storage :: unit storage) ''models/a.zip'' (p_device ?self)
      = Inl (ValueError ''models/a.zip not found'')"
    by (simp add: PPO_load_def empty_storage_def)
  have c: "PPO_load (single_storage ''models/a.zip'' ()) ''models/a.zip'' (p_device ?self) = Inr ()"
    by (simp add: PPO_load_def single_storage_def)
  have d: "p_load_calls ?self = []" by (simp add: ThreadedProcessor_init_def)
  from failed_load_is_not_cached[OF a b] c d show ?thesis by auto
qed

subsection \<open>Unknown models and a missing directory\<close>

lemma error_line_unfold:
  "error_line e = ''{'' @ [dq] @ ''error'' @ [dq] @ '': '' @ json_dumps_str (py_str_exn e)
                    @ ''}'' @ [nl]"
  by (simp add: error_line_def json_dumps_error_def json_dumps_str_def json_escape_char_def
      dq_def bsl_def)

text \<open>
  Claim C2, as the code has it. A request whose model name is not a key of the catalog
  fails with the \<^verbatim>\<open>ValueError\<close> whose message is \<^verbatim>\<open>Unknown model: \<close>, the name,
  \<^verbatim>\<open>. Available: \<close> and the list of the catalog names in insertion order as Python
  prints a list of strings: each name in its \<^verbatim>\<open>repr\<close>, quoted, separated by a comma
  and a space, in square brackets. The processor is left as it was, and the line written
  for the failure is the object with the one field \<^verbatim>\<open>error\<close> holding that message.
\<close>

theorem unknown_model_error:
  assumes "model request \<notin> set (dict_keys (models self))"
  shows "process_request th_tensor storage self remote_processor request
           = (Inl (ValueError (''Unknown model: '' @ model request @ ''. Available: [''
                                 @ join_comma (map py_repr (dict_keys (models self))) @ '']'')),
              remote_processor)
       \<and> error_line (ValueError (''Unknown model: '' @ model request @ ''. Available: [''
                                 @ join_comma (map py_repr (dict_keys (models self))) @ '']''))
           = ''{'' @ [dq] @ ''error'' @ [dq] @ '': ''
               @ json_dumps_str (''Unknown model: '' @ model request @ ''. Available: [''
                                 @ join_comma (map py_repr (dict_keys (models self))) @ '']'')
               @ ''}'' @ [nl]"
proof -
  have "\<not> dict_contains (models self) (model request)"
    using assms by (simp add: dict_contains_def)
  then have "process_request th_tensor storage self remote_processor request
           = (Inl (ValueError (''Unknown model: '' @ model request @ ''. Available: ''
                                 @ py_str_list (dict_keys (models self)))),
              remote_processor)"
    by (simp add: process_request_def)
  then show ?thesis
    by (simp add: py_str_list_def error_line_unfold)
qed

theorem unknown_model_error_witness:
  "fst (process_request any_tensor (empty_storage :: (unit, unit, unit) PPO storage) bronze_server
          (ThreadedProcessor_init 1 ''cpu'') (plain_request ''iron_agility''))
     = Inl (ValueError (''Unknown model: iron_agility. Available: ['' @ [sq] @ ''bronze_agility''
                          @ [sq] @ '']''))
   \<and> error_line (ValueError (''Unknown model: iron_agility. Available: ['' @ [sq]
                                @ ''bronze_agility'' @ [sq] @ '']''))
     = ''{'' @ [dq] @ ''error'' @ [dq] @ '': '' @ [dq]
         @ ''Unknown model: iron_agility. Available: ['' @ [sq] @ ''bronze_agility'' @ [sq] @ '']''
         @ [dq] @ ''}'' @ [nl]"
proof -
  have absent: "model (plain_request ''iron_agility'') \<notin> set (dict_keys (models bronze_server))"
    by (simp add: plain_request_def bronze_server_def dict_keys_def)
  have names: "join_comma (map py_repr (dict_keys (models bronze_server)))
      = [sq] @ ''bronze_agility'' @ [sq]"
    by (simp add: bronze_server_def dict_keys_def py_repr_def py_repr_quote_def py_repr_char_def
        py_isprintable_def sq_def dq_def bsl_def Let_def)
  have name: "model (plain_request ''iron_agility'') = ''iron_agility''"
    by (simp add: plain_request_def)
  have dumps: "json_dumps_str (''Unknown model: iron_agility. Available: ['' @ [sq]
                                @ ''bronze_agility'' @ [sq] @ '']'')
      = [dq] @ ''Unknown model: iron_agility. Available: ['' @ [sq] @ ''bronze_agility'' @ [sq]
          @ '']'' @ [dq]"
    by (simp add: json_dumps_str_def json_escape_char_def sq_def dq_def bsl_def)
  from unknown_model_error[OF absent, of any_tensor
         "empty_storage :: (unit, unit, unit) PPO storage" "ThreadedProcessor_init 1 ''cpu''"]
  show ?thesis
    unfolding names name using dumps by simp
qed

text \<open>
  The line the specification gives for this scenario has the name without quotes; the
  handler writes it with the quotes of \<^verbatim>\<open>repr\<close>.
\<close>

theorem unknown_model_line_counterexample:
  "(case fst (process_request any_tensor (empty_storage :: (unit, unit, unit) PPO storage)
                bronze_server (ThreadedProcessor_init 1 ''cpu'') (plain_request ''iron_agility'')) of
      Inl e \<Rightarrow> error_line e
    | Inr response \<Rightarrow> [])
   \<noteq> ''{'' @ [dq] @ ''error'' @ [dq] @ '': '' @ [dq]
         @ ''Unknown model: iron_agility. Available: [bronze_agility]'' @ [dq] @ ''}'' @ [nl]"
  by (simp add: process_request_def plain_request_def bronze_server_def dict_contains_def
      dict_keys_def py_str_list_def py_repr_def py_repr_quote_def py_repr_char_def
      py_isprintable_def error_line_def json_dumps_error_def json_dumps_str_def
      json_escape_char_def sq_def dq_def bsl_def nl_def Let_def)

text \<open>
  Claim C10. When the models directory does not exist, the constructor returns a server
  with an empty catalog. Starting it issues no preload: \<^verbatim>\<open>start\<close> fails only if the
  processor cannot be created or the listener cannot be bound, and otherwise returns the
  fresh processor, with no model loaded and no \<^verbatim>\<open>PPO.load\<close> call made. Every request
  then fails with the unknown-model error listing no name, and leaves the processor as
  it was.
\<close>

theorem missing_models_directory:
  assumes "listdir (case models_dir of None \<Rightarrow> settings_models_dir
                    | Some d \<Rightarrow> if d = [] then settings_models_dir else d) = None"
  shows "\<exists>self. TCPInferenceServer_init listdir joinp settings_models_dir
                  host0 port0 models_dir pool_size0 processor_type0 device0 = Inr self
       \<and> models self = []
       \<and> preload_tasks self (ThreadedProcessor_init pool_size0 device0 :: 'm processor) = []
       \<and> start storage bind self
           = (case create_remote_processor pool_size0 processor_type0 device0 of
                Inl e \<Rightarrow> Inl e
              | Inr remote_processor \<Rightarrow>
                  (case bind of Some e \<Rightarrow> Inl e | None \<Rightarrow> Inr remote_processor))
       \<and> (0 < pool_size0 \<and> processor_type0 = ''thread'' \<and> bind = None \<longrightarrow>
             start storage bind self = Inr (ThreadedProcessor_init pool_size0 device0)
           \<and> p_load_calls (ThreadedProcessor_init pool_size0 device0
                             :: ('t, 'f, 'x) PPO processor) = []
           \<and> p_models (ThreadedProcessor_init pool_size0 device0
                             :: ('t, 'f, 'x) PPO processor) = Map.empty)
       \<and> (\<forall>remote_processor request.
             process_request th_tensor storage self remote_processor request
               = (Inl (ValueError (''Unknown model: '' @ model request @ ''. Available: []'')),
                  remote_processor))"
proof -
  let ?self = "\<lparr>host = host0, port = port0, pool_size = pool_size0,
                 processor_type = processor_type0, device = device0, models = []\<rparr>"
  have init: "TCPInferenceServer_init listdir joinp settings_models_dir
                  host0 port0 models_dir pool_size0 processor_type0 device0 = Inr ?self"
    using assms by (simp add: TCPInferenceServer_init_def)
  have tasks: "preload_tasks ?self (ThreadedProcessor_init pool_size0 device0 :: 'm processor) = []"
    by (simp add: preload_tasks_def dict_values_def)
  have st: "start storage bind ?self
           = (case create_remote_processor pool_size0 processor_type0 device0 of
                Inl e \<Rightarrow> Inl e
              | Inr remote_processor \<Rightarrow>
                  (case bind of Some e \<Rightarrow> Inl e | None \<Rightarrow> Inr remote_processor))"
    by (simp add: start_def split: sum.splits)
  have ok: "start storage bind ?self = Inr (ThreadedProcessor_init pool_size0 device0)
           \<and> p_load_calls (ThreadedProcessor_init pool_size0 device0
                             :: ('t, 'f, 'x) PPO processor) = []
           \<and> p_models (ThreadedProcessor_init pool_size0 device0
                             :: ('t, 'f, 'x) PPO processor) = Map.empty"
    if "0 < pool_size0 \<and> processor_type0 = ''thread'' \<and> bind = None"
    unfolding st using that
    by (simp add: create_remote_processor_def ThreadedProcessor_init_def)
  have req: "process_request th_tensor storage ?self remote_processor request
               = (Inl (ValueError (''Unknown model: '' @ model request @ ''. Available: []'')),
                  remote_processor)" for remote_processor request
    by (simp add: process_request_def dict_contains_def dict_keys_def py_str_list_def)
  show ?thesis
  proof (intro exI[of _ ?self] conjI)
    show "TCPInferenceServer_init listdir joinp settings_models_dir
            host0 port0 models_dir pool_size0 processor_type0 device0 = Inr ?self"
      by (rule init)
    show "models ?self = []" by simp
    show "preload_tasks ?self (ThreadedProcessor_init pool_size0 device0 :: 'm processor) = []"
      by (rule tasks)
    show "start storage bind ?self
           = (case create_remote_processor pool_size0 processor_type0 device0 of
                Inl e \<Rightarrow> Inl e
              | Inr remote_processor \<Rightarrow>
                  (case bind of Some e \<Rightarrow> Inl e | None \<Rightarrow> Inr remote_processor))"
      by (rule st)
    show "0 < pool_size0 \<and> processor_type0 = ''thread'' \<and> bind = None \<longrightarrow>
             start storage bind ?self = Inr (ThreadedProcessor_init pool_size0 device0)
           \<and> p_load_calls (ThreadedProcessor_init pool_size0 device0
                             :: ('t, 'f, 'x) PPO processor) = []
           \<and> p_models (ThreadedProcessor_init pool_size0 device0
                             :: ('t, 'f, 'x) PPO processor) = Map.empty"
      using ok by blast
    show "\<forall>remote_processor request.
             process_request th_tensor storage ?self remote_processor request
               = (Inl (ValueError (''Unknown model: '' @ model request @ ''. Available: []'')),
                  remote_processor)"
      using req by blast
  qed
qed

theorem missing_models_directory_witness:
  "TCPInferenceServer_init no_directory posix_join ''models'' ''127.0.0.1'' 9999 None 2
       ''thread'' ''cpu''
     = Inr \<lparr>host = ''127.0.0.1'', port = 9999, pool_size = 2, processor_type = ''thread'',
            device = ''cpu'', models = []\<rparr>
   \<and> start (empty_storage :: (unit, unit, unit) PPO storage) None
         \<lparr>host = ''127.0.0.1'', port = 9999, pool_size = 2, processor_type = ''thread'',
            device = ''cpu'', models = []\<rparr>
     = Inr (ThreadedProcessor_init 2 ''cpu'')
   \<and> process_request any_tensor (empty_storage :: (unit, unit, unit) PPO storage)
         \<lparr>host = ''127.0.0.1'', port = 9999, pool_size = 2, processor_type = ''thread'',
            device = ''cpu'', models = []\<rparr>
         (ThreadedProcessor_init 2 ''cpu'') (plain_request ''bronze_agility'')
     = (Inl (ValueError ''Unknown model: bronze_agility. Available: []''),
        ThreadedProcessor_init 2 ''cpu'')"
proof -
  let ?self = "\<lparr>host = ''127.0.0.1'', port = 9999, pool_size = 2, processor_type = ''thread'',
                 device = ''cpu'', models = []\<rparr>"
  have gone: "no_directory (case None of None \<Rightarrow> ''models''
                            | Some d \<Rightarrow> if d = [] then ''models'' else d) = None"
    by (simp add: no_directory_def)
  note T = missing_models_directory[where listdir = no_directory and models_dir = None
      and settings_models_dir = "''models''" and joinp = posix_join and ?host0.0 = "''127.0.0.1''"
      and ?port0.0 = 9999 and ?pool_size0.0 = 2 and ?processor_type0.0 = "''thread''"
      and ?device0.0 = "''cpu''" and bind = None and th_tensor = any_tensor
      and storage = "empty_storage :: (unit, unit, unit) PPO storage"]
  from T[OF gone] obtain self where
    init: "TCPInferenceServer_init no_directory posix_join ''models'' ''127.0.0.1'' 9999 None 2
             ''thread'' ''cpu'' = Inr self"
    and st: "(0::int) < 2 \<and> ''thread'' = ''thread'' \<and> (None :: exn option) = None \<longrightarrow>
             start (empty_storage :: (unit, unit, unit) PPO storage) None self
               = Inr (ThreadedProcessor_init 2 ''cpu'')"
    and req: "\<forall>remote_processor request.
             process_request any_tensor (empty_storage :: (unit, unit, unit) PPO storage) self
               remote_processor request
               = (Inl (ValueError (''Unknown model: '' @ model request @ ''. Available: []'')),
                  remote_processor)"
    by blast
  have self: "self = ?self"
    using init by (simp add: TCPInferenceServer_init_def no_directory_def)
  from st have "start (empty_storage :: (unit, unit, unit) PPO storage) None self
               = Inr (ThreadedProcessor_init 2 ''cpu'')"
    by simp
  moreover from req have "process_request any_tensor
         (empty_storage :: (unit, unit, unit) PPO storage) self
         (ThreadedProcessor_init 2 ''cpu'') (plain_request ''bronze_agility'')
     = (Inl (ValueError (''Unknown model: '' @ model (plain_request ''bronze_agility'')
                           @ ''. Available: []'')),
        ThreadedProcessor_init 2 ''cpu'')"
    by blast
  ultimately show ?thesis
    using init unfolding self by (simp add: plain_request_def)
qed

subsection \<open>Optional outputs\<close>

lemma eval_policy_flags:
  assumes "eval_policy self ob action_masks sample_deterministic
             return_actions return_entropy return_log_probs return_values return_probs
           = Inr (actions, log_probs, entropy0, values0, probs0)"
  shows "(actions \<noteq> None \<longleftrightarrow> return_actions) \<and> (log_probs \<noteq> None \<longleftrightarrow> return_log_probs)
       \<and> (entropy0 \<noteq> None \<longleftrightarrow> return_entropy) \<and> (values0 \<noteq> None \<longleftrightarrow> return_values)
       \<and> (probs0 \<noteq> None \<longleftrightarrow> return_probs)"
  using assms by (auto simp: eval_policy_def split: sum.splits if_splits)

lemma run_extensions_length:
  "run_extensions exts ob names = Inr results \<Longrightarrow> length results = length names"
proof (induction names arbitrary: results)
  case Nil
  then show ?case by simp
next
  case (Cons name names)
  then show ?case by (auto split: option.splits sum.splits)
qed

lemma PPO_predict_flags:
  assumes "PPO_predict self ob action_masks det return_actions return_log_probs
             return_entropy return_values return_probs names
           = Inr (actions, log_probs, entropy0, values0, probs0, results)"
  shows "(actions \<noteq> None \<longleftrightarrow> return_actions) \<and> (log_probs \<noteq> None \<longleftrightarrow> return_log_probs)
       \<and> (entropy0 \<noteq> None \<longleftrightarrow> return_entropy) \<and> (values0 \<noteq> None \<longleftrightarrow> return_values)
       \<and> (probs0 \<noteq> None \<longleftrightarrow> return_probs) \<and> length results = length names"
proof -
  let ?det = "case det of DetBool True \<Rightarrow> replicate (length (action_head_sizes self)) True
              | DetBool False \<Rightarrow> replicate (length (action_head_sizes self)) False
              | DetTensor t \<Rightarrow> t"
  let ?ob = "if normalized_observations self then normalize self ob else ob"
  from assms have ev: "eval_policy self ?ob action_masks ?det
             return_actions return_entropy return_log_probs return_values return_probs
           = Inr (actions, log_probs, entropy0, values0, probs0)"
    and ex: "run_extensions (ppo_extensions self) ?ob names = Inr results"
    by (auto simp: PPO_predict_def Let_def split: sum.splits prod.splits)
  from eval_policy_flags[OF ev] run_extensions_length[OF ex] show ?thesis by simp
qed

lemma worker_task_predicts:
  assumes "worker_task storage p model_path (Some ob) (Some masks) det
             return_actions return_log_probs return_entropy return_values return_probs names
           = (Inr prediction, p1)"
  shows "\<exists>self. PPO_predict self ob masks det return_actions return_log_probs
             return_entropy return_values return_probs names = Inr prediction"
proof -
  from assms obtain ident ppo where
    "PPO_predict ppo ob masks det return_actions return_log_probs
       return_entropy return_values return_probs names = Inr prediction"
    by (auto simp: worker_task_def split: prod.splits sum.splits)
  then show ?thesis by blast
qed

lemma first_row_opt_present: "first_row_opt t = Inr r \<Longrightarrow> (r \<noteq> None \<longleftrightarrow> t \<noteq> None)"
  by (auto simp: first_row_opt_def split: option.splits sum.splits)

lemma response_probs_present:
  "response_probs return_probs masks flattened = Inr r
     \<Longrightarrow> (r \<noteq> None \<longleftrightarrow> return_probs \<and> flattened \<noteq> None)"
  by (auto simp: response_probs_def split: option.splits sum.splits if_splits)

lemma build_response_fields:
  assumes "build_response request (actions, log_probs, entropy0, values0, probs0, results)
           = Inr response"
  shows "(logProb response \<noteq> None \<longleftrightarrow> log_probs \<noteq> None)
       \<and> (entropy response \<noteq> None \<longleftrightarrow> entropy0 \<noteq> None)
       \<and> (values response \<noteq> None \<longleftrightarrow> values0 \<noteq> None)
       \<and> (probs response \<noteq> None \<longleftrightarrow> returnProbs request \<and> probs0 \<noteq> None)
       \<and> extensionResults response = results"
proof -
  note b = assms[unfolded build_response_def prod.case]
  from b obtain action_t where 1: "actions = Some action_t"
    by (cases actions) simp_all
  from b 1 obtain pr where
    2: "response_probs (returnProbs request) (actionMasks request) probs0 = Inr pr"
    by (cases "response_probs (returnProbs request) (actionMasks request) probs0") simp_all
  from b 1 2 obtain ar where 3: "first_row action_t = Inr ar"
    by (cases "first_row action_t") simp_all
  from b 1 2 3 obtain lp where 4: "first_row_opt log_probs = Inr lp"
    by (cases "first_row_opt log_probs") simp_all
  from b 1 2 3 4 obtain en where 5: "first_row_opt entropy0 = Inr en"
    by (cases "first_row_opt entropy0") simp_all
  from b 1 2 3 4 5 obtain va where 6: "first_row_opt values0 = Inr va"
    by (cases "first_row_opt values0") simp_all
  from b 1 2 3 4 5 6 have r:
    "response = \<lparr>action = ar, logProb = lp, entropy = en, values = va, probs = pr,
                  extensionResults = results\<rparr>"
    by simp
  show ?thesis
    unfolding r
    using first_row_opt_present[OF 4] first_row_opt_present[OF 5] first_row_opt_present[OF 6]
      response_probs_present[OF 2]
    by simp
qed

text \<open>
  Claim C7. Whenever \<^verbatim>\<open>_process_request\<close> produces a response, each of
  \<^verbatim>\<open>logProb\<close>, \<^verbatim>\<open>entropy\<close>, \<^verbatim>\<open>values\<close> and \<^verbatim>\<open>probs\<close> is present exactly when
  its flag is set in the request, so all four are absent when the four flags are false;
  and there is one extension result per requested extension, so none when the request
  has no extension.
\<close>

theorem optional_outputs_follow_flags:
  assumes "process_request th_tensor storage self remote_processor request = (Inr response, p1)"
  shows "(logProb response \<noteq> None \<longleftrightarrow> returnLogProb request)
       \<and> (entropy response \<noteq> None \<longleftrightarrow> returnEntropy request)
       \<and> (values response \<noteq> None \<longleftrightarrow> returnValue request)
       \<and> (probs response \<noteq> None \<longleftrightarrow> returnProbs request)
       \<and> length (extensionResults response) = length (extensions request)
       \<and> (\<not> returnLogProb request \<and> \<not> returnEntropy request \<and> \<not> returnValue request
            \<and> \<not> returnProbs request
          \<longrightarrow> logProb response = None \<and> entropy response = None \<and> values response = None
              \<and> probs response = None)
       \<and> (extensions request = [] \<longrightarrow> extensionResults response = [])"
proof -
  from assms obtain observations model_path prediction where
    wt: "worker_task storage remote_processor model_path (Some observations)
           (Some [chain_from_iterable (actionMasks request)]) (deterministic request) True
           (returnLogProb request) (returnEntropy request) (returnValue request)
           (returnProbs request) (extensions request) = (Inr prediction, p1)"
    and br: "build_response request prediction = Inr response"
    by (auto simp: process_request_def Let_def
             split: if_splits sum.splits option.splits prod.splits)
  obtain actions log_probs entropy0 values0 probs0 results where
    pred: "prediction = (actions, log_probs, entropy0, values0, probs0, results)"
    by (cases prediction) auto
  from worker_task_predicts[OF wt] obtain ppo where
    "PPO_predict ppo observations [chain_from_iterable (actionMasks request)]
       (deterministic request) True (returnLogProb request) (returnEntropy request)
       (returnValue request) (returnProbs request) (extensions request)
     = Inr (actions, log_probs, entropy0, values0, probs0, results)"
    unfolding pred by blast
  note flags = PPO_predict_flags[OF this]
  note fields = build_response_fields[OF br[unfolded pred]]
  from flags fields show ?thesis by auto
qed

theorem optional_outputs_follow_flags_witness:
  "process_request any_tensor (single_storage ''models/bronze_agility.zip'' sample_ppo)
       bronze_server (ThreadedProcessor_init 1 ''cpu'') (plain_request ''bronze_agility'')
     = (Inr \<lparr>action = [1, 0], logProb = None, entropy = None, values = None, probs = None,
             extensionResults = []\<rparr>,
        (store_model (ThreadedProcessor_init 1 ''cpu'') ''models/bronze_agility.zip'' sample_ppo)
          \<lparr>p_locks_made := 1\<rparr>)
   \<and> fst (process_request any_tensor (single_storage ''models/bronze_agility.zip'' sample_ppo)
       bronze_server (ThreadedProcessor_init 1 ''cpu'')
       ((plain_request ''bronze_agility'')\<lparr>returnLogProb := True, returnEntropy := True,
            returnValue := True, returnProbs := True\<rparr>))
     = Inr \<lparr>action = [1, 0], logProb = Some (- 2), entropy = Some [3, 4], values = Some [5],
            probs = Some [[10, 20, 30], [40, 50]], extensionResults = []\<rparr>"
proof -
  let ?storage = "single_storage ''models/bronze_agility.zip'' sample_ppo"
  let ?p0 = "ThreadedProcessor_init 1 ''cpu'' :: (unit, int, unit) PPO processor"
  let ?p1 = "(store_model ?p0 ''models/bronze_agility.zip'' sample_ppo)\<lparr>p_locks_made := 1\<rparr>"
  have load: "load_model ?storage ?p0 ''models/bronze_agility.zip'' = (Inr (0, sample_ppo), ?p1)"
    by (simp add: load_model_def PPO_load_def single_storage_def ThreadedProcessor_init_def
        find_or_create_lock_def clean_up_lock_def store_model_def return_model_def Let_def)
  have cut: "split_probs [[True, True, False], [False, True]] [10, 20, 30, 40, 50 :: int]
      = [[10, 20, 30], [40, 50]]"
    by (simp add: split_probs_split_by)
  have predict: "PPO_predict sample_ppo ob masks (DetBool False) True lp en va pr []
      = Inr (Some [[1, 0]], if lp then Some [- 2] else None, if en then Some [[3, 4]] else None,
             if va then Some [[5]] else None, if pr then Some [[10, 20, 30, 40, 50]] else None, [])"
    for ob masks lp en va pr
    by (simp add: PPO_predict_def eval_policy_def sample_ppo_def sample_network_def)
  have task: "worker_task ?storage ?p0 ''models/bronze_agility.zip'' (Some ob) (Some masks)
                (DetBool False) True lp en va pr []
      = (Inr (Some [[1, 0]], if lp then Some [- 2] else None, if en then Some [[3, 4]] else None,
              if va then Some [[5]] else None, if pr then Some [[10, 20, 30, 40, 50]] else None, []),
         ?p1)"
    for ob masks lp en va pr
    by (simp add: worker_task_def load predict)
  have quiet: "process_request any_tensor ?storage bronze_server ?p0
                 (plain_request ''bronze_agility'')
      = (Inr \<lparr>action = [1, 0], logProb = None, entropy = None, values = None, probs = None,
              extensionResults = []\<rparr>, ?p1)"
    by (simp add: process_request_def plain_request_def bronze_server_def dict_contains_def
        dict_keys_def dict_lookup_def any_tensor_def task build_response_def
        response_probs_def first_row_def first_row_opt_def Let_def)
  have full: "process_request any_tensor ?storage bronze_server ?p0
                 ((plain_request ''bronze_agility'')\<lparr>returnLogProb := True, returnEntropy := True,
                    returnValue := True, returnProbs := True\<rparr>)
      = (Inr \<lparr>action = [1, 0], logProb = Some (- 2), entropy = Some [3, 4], values = Some [5],
              probs = Some [[10, 20, 30], [40, 50]], extensionResults = []\<rparr>, ?p1)"
    by (simp add: process_request_def plain_request_def bronze_server_def dict_contains_def
        dict_keys_def dict_lookup_def any_tensor_def task build_response_def
        response_probs_def first_row_def first_row_opt_def Let_def cut)
  from optional_outputs_follow_flags[OF quiet] optional_outputs_follow_flags[OF full] quiet full
  show ?thesis by simp
qed

subsection \<open>The connection handler\<close>

lemma handle_turn_failure:
  assumes "h_inbound conn = Line request_line # rest" and "request_line \<noteq> []"
    and "handle_request request_line (h_state conn) = (Inl e, st1)"
    and "drain (length (h_written conn)) = None"
  shows "handle_turn drain handle_request conn
       = conn\<lparr>h_inbound := rest, h_written := h_written conn @ [error_line e], h_state := st1\<rparr>"
  using assms by (simp add: handle_turn_def write_drain_def)

lemma handle_turn_success:
  assumes "h_inbound conn = Line request_line # rest" and "request_line \<noteq> []"
    and "handle_request request_line (h_state conn) = (Inr response_line, st1)"
    and "drain (length (h_written conn)) = None"
  shows "handle_turn drain handle_request conn
       = conn\<lparr>h_inbound := rest, h_written := h_written conn @ [response_line], h_state := st1\<rparr>"
  using assms by (simp add: handle_turn_def write_drain_def)

lemma handle_client_open:
  "\<not> h_closed conn \<Longrightarrow>
   handle_client drain handle_request conn
     = handle_client drain handle_request (handle_turn drain handle_request conn)"
  by (subst handle_client.simps) simp

lemma handle_client_closed:
  "h_closed conn \<Longrightarrow> handle_client drain handle_request conn = conn"
  by (subst handle_client.simps) simp

text \<open>
  Claim C4. On an open connection, when the processing of a line raises an exception
  and the write of the answer does not fail, the turn of the loop writes the one error
  line for that exception, an object with the single field \<^verbatim>\<open>error\<close>, leaves the
  connection open with the remaining input still to be read, and the loop goes on from
  there. If the next line is then processed without failure, the turn after it adds
  exactly its response line, and the connection is still open.
\<close>

theorem request_failure_keeps_connection:
  assumes "\<not> h_closed conn"
    and "h_inbound conn = Line request_line # rest" and "request_line \<noteq> []"
    and "handle_request request_line (h_state conn) = (Inl e, st1)"
    and "drain (length (h_written conn)) = None"
  shows "handle_turn drain handle_request conn
           = conn\<lparr>h_inbound := rest, h_written := h_written conn @ [error_line e],
                   h_state := st1\<rparr>
       \<and> \<not> h_closed (handle_turn drain handle_request conn)
       \<and> error_line e = ''{'' @ [dq] @ ''error'' @ [dq] @ '': ''
                            @ json_dumps_str (py_str_exn e) @ ''}'' @ [nl]
       \<and> handle_client drain handle_request conn
           = handle_client drain handle_request (handle_turn drain handle_request conn)
       \<and> (\<forall>next_line rest2 response_line st2.
             rest = Line next_line # rest2 \<and> next_line \<noteq> []
             \<and> handle_request next_line st1 = (Inr response_line, st2)
             \<and> drain (Suc (length (h_written conn))) = None
             \<longrightarrow> handle_turn drain handle_request (handle_turn drain handle_request conn)
                   = conn\<lparr>h_inbound := rest2,
                          h_written := h_written conn @ [error_line e, response_line],
                          h_state := st2\<rparr>
                 \<and> \<not> h_closed (handle_turn drain handle_request
                                   (handle_turn drain handle_request conn)))"
proof -
  let ?c1 = "conn\<lparr>h_inbound := rest, h_written := h_written conn @ [error_line e],
                   h_state := st1\<rparr>"
  have turn: "handle_turn drain handle_request conn = ?c1"
    using assms(2-5) by (simp add: handle_turn_def write_drain_def)
  have open1: "\<not> h_closed ?c1" using assms(1) by simp
  have loop: "handle_client drain handle_request conn
           = handle_client drain handle_request (handle_turn drain handle_request conn)"
    using assms(1) by (rule handle_client_open)
  have after: "handle_turn drain handle_request ?c1
                   = conn\<lparr>h_inbound := rest2,
                          h_written := h_written conn @ [error_line e, response_line],
                          h_state := st2\<rparr>"
    if "rest = Line next_line # rest2 \<and> next_line \<noteq> []
          \<and> handle_request next_line st1 = (Inr response_line, st2)
          \<and> drain (Suc (length (h_written conn))) = None"
    for next_line rest2 response_line st2
    using that by (simp add: handle_turn_def write_drain_def)
  show ?thesis
  proof (intro conjI allI impI)
    show "handle_turn drain handle_request conn = ?c1" by (rule turn)
    show "\<not> h_closed (handle_turn drain handle_request conn)"
      unfolding turn by (rule open1)
    show "error_line e = ''{'' @ [dq] @ ''error'' @ [dq] @ '': ''
                            @ json_dumps_str (py_str_exn e) @ ''}'' @ [nl]"
      by (rule error_line_unfold)
    show "handle_client drain handle_request conn
           = handle_client drain handle_request (handle_turn drain handle_request conn)"
      by (rule loop)
  next
    fix next_line rest2 response_line st2
    assume h: "rest = Line next_line # rest2 \<and> next_line \<noteq> []
          \<and> handle_request next_line st1 = (Inr response_line, st2)
          \<and> drain (Suc (length (h_written conn))) = None"
    show "handle_turn drain handle_request (handle_turn drain handle_request conn)
                   = conn\<lparr>h_inbound := rest2,
                          h_written := h_written conn @ [error_line e, response_line],
                          h_state := st2\<rparr>"
      unfolding turn by (rule after[OF h])
    then show "\<not> h_closed (handle_turn drain handle_request
                                   (handle_turn drain handle_request conn))"
      using assms(1) by simp
  qed
qed

theorem request_failure_keeps_connection_witness:
  "handle_client no_failure
       (request_pipeline sample_loads sample_wording sample_process sample_dumps)
       \<lparr>h_inbound = [Line (''not json'' @ [nl]), Line sample_line], h_written = [],
          h_closed = False, h_state = 0\<rparr>
     = \<lparr>h_inbound = [],
        h_written = [error_line (OtherError ''Expecting value: line 1 column 1 (char 0)''),
                     ''{'' @ [dq] @ ''action'' @ [dq] @ '': []}'' @ [nl]],
        h_closed = True, h_state = 1\<rparr>
   \<and> handle_turn no_failure
         (request_pipeline sample_loads sample_wording sample_process sample_dumps)
         (handle_turn no_failure
            (request_pipeline sample_loads sample_wording sample_process sample_dumps)
            \<lparr>h_inbound = [Line (''not json'' @ [nl]), Line sample_line], h_written = [],
               h_closed = False, h_state = 0\<rparr>)
     = \<lparr>h_inbound = [],
        h_written = [error_line (OtherError ''Expecting value: line 1 column 1 (char 0)''),
                     ''{'' @ [dq] @ ''action'' @ [dq] @ '': []}'' @ [nl]],
        h_closed = False, h_state = 1\<rparr>"
proof -
  let ?hr = "request_pipeline sample_loads sample_wording sample_process sample_dumps"
  let ?conn = "\<lparr>h_inbound = [Line (''not json'' @ [nl]), Line sample_line], h_written = [],
                 h_closed = False, h_state = 0 :: nat\<rparr>"
  let ?e = "OtherError ''Expecting value: line 1 column 1 (char 0)''"
  let ?line = "''{'' @ [dq] @ ''action'' @ [dq] @ '': []}'' @ [nl]"
  let ?c2 = "\<lparr>h_inbound = [], h_written = [error_line ?e, ?line],
               h_closed = False, h_state = 1 :: nat\<rparr>"
  have a1: "\<not> h_closed ?conn" by simp
  have a2: "h_inbound ?conn = Line (''not json'' @ [nl]) # [Line sample_line]" by simp
  have a3: "''not json'' @ [nl] \<noteq> []" by simp
  have bad: "?hr (''not json'' @ [nl]) (h_state ?conn) = (Inl ?e, 0)"
    by (simp add: request_pipeline_def sample_loads_def sample_line_def sample_line_extra_def)
  have a5: "no_failure (length (h_written ?conn)) = None" by (simp add: no_failure_def)
  have good: "?hr sample_line 0 = (Inr ?line, 1)"
    by (simp add: request_pipeline_def sample_loads_def InferenceRequest_init_def
        field_names_def required_fields_def dict_keys_def dict_contains_def dict_lookup_def
        sample_process_def sample_dumps_def)
  note T = request_failure_keeps_connection[where conn = ?conn and handle_request = ?hr
      and drain = no_failure and request_line = "''not json'' @ [nl]"
      and rest = "[Line sample_line]" and e = ?e and ?st1.0 = 0, OF a1 a2 a3 bad a5]
  note loop = T[THEN conjunct2, THEN conjunct2, THEN conjunct2, THEN conjunct1]
  note open1 = T[THEN conjunct2, THEN conjunct1]
  note next_turn = T[THEN conjunct2, THEN conjunct2, THEN conjunct2, THEN conjunct2,
      THEN spec, THEN spec, THEN spec, THEN spec, THEN mp, THEN conjunct1]
  have "[Line sample_line] = Line sample_line # [] \<and> sample_line \<noteq> []
      \<and> ?hr sample_line 0 = (Inr ?line, 1)
      \<and> no_failure (Suc (length (h_written ?conn))) = None"
    using good by (simp add: no_failure_def sample_line_def)
  then have two: "handle_turn no_failure ?hr (handle_turn no_failure ?hr ?conn)
      = ?conn\<lparr>h_inbound := [], h_written := h_written ?conn @ [error_line ?e, ?line],
               h_state := 1\<rparr>"
    by (rule next_turn)
  then have two': "handle_turn no_failure ?hr (handle_turn no_failure ?hr ?conn) = ?c2"
    by simp
  have three: "handle_turn no_failure ?hr ?c2 = ?c2\<lparr>h_closed := True\<rparr>"
    by (simp add: handle_turn_def)
  have open2: "\<not> h_closed ?c2" by simp
  have closed3: "h_closed (?c2\<lparr>h_closed := True\<rparr>)" by simp
  have "handle_client no_failure ?hr ?conn
      = handle_client no_failure ?hr (handle_turn no_failure ?hr ?conn)"
    by (rule loop)
  also have "\<dots> = handle_client no_failure ?hr
                      (handle_turn no_failure ?hr (handle_turn no_failure ?hr ?conn))"
    by (rule handle_client_open[OF open1])
  also have "\<dots> = handle_client no_failure ?hr ?c2"
    by (simp only: two')
  also have "\<dots> = handle_client no_failure ?hr (handle_turn no_failure ?hr ?c2)"
    by (rule handle_client_open[OF open2])
  also have "\<dots> = handle_client no_failure ?hr (?c2\<lparr>h_closed := True\<rparr>)"
    by (simp only: three)
  also have "\<dots> = ?c2\<lparr>h_closed := True\<rparr>"
    by (rule handle_client_closed[OF closed3])
  finally have "handle_client no_failure ?hr ?conn = ?c2\<lparr>h_closed := True\<rparr>" .
  then have "handle_client no_failure ?hr ?conn
      = \<lparr>h_inbound = [], h_written = [error_line ?e, ?line], h_closed = True,
          h_state = 1\<rparr>"
    by (simp only: connection.simps)
  with two' show ?thesis by (simp only: simp_thms)
qed

lemma first_unexpected_keyword:
  assumes "k \<in> set keys" and "k \<notin> set field_names"
  shows "\<exists>k0 ks. filter (\<lambda>k. k \<notin> set field_names) keys = k0 # ks
           \<and> k0 \<in> set keys \<and> k0 \<notin> set field_names"
proof (cases "filter (\<lambda>k. k \<notin> set field_names) keys")
  case Nil
  with assms show ?thesis by (auto simp: filter_empty_conv)
next
  case (Cons k0 ks)
  then have "k0 \<in> set (filter (\<lambda>k. k \<notin> set field_names) keys)" by simp
  then have "k0 \<in> set keys" "k0 \<notin> set field_names" by simp_all
  with Cons show ?thesis by blast
qed

text \<open>
  Claim C9. When a line decodes to a JSON object with a member whose name is not one
  of the nine fields, the constructor raises the \<^verbatim>\<open>TypeError\<close> for the first such
  name, whatever else the object holds; the request is not processed (the state is
  unchanged); and on an open connection whose write does not fail the handler writes the
  error line of that \<^verbatim>\<open>TypeError\<close> and keeps the connection open.
\<close>

theorem unexpected_field_is_rejected:
  assumes "loads request_line = Inr (JObject kwargs)"
    and "k \<in> set (dict_keys kwargs)" and "k \<notin> set field_names"
  shows "\<exists>k0. k0 \<in> set (dict_keys kwargs) \<and> k0 \<notin> set field_names
       \<and> InferenceRequest_init wording (JObject kwargs)
           = Inl (TypeError (wording (UnexpectedKeyword k0)))
       \<and> request_pipeline loads wording process dumps request_line st
           = (Inl (TypeError (wording (UnexpectedKeyword k0))), st)
       \<and> (\<forall>conn drain rest.
             \<not> h_closed conn \<and> h_inbound conn = Line request_line # rest
             \<and> request_line \<noteq> [] \<and> h_state conn = st
             \<and> drain (length (h_written conn)) = None
             \<longrightarrow> handle_turn drain (request_pipeline loads wording process dumps) conn
                   = conn\<lparr>h_inbound := rest,
                          h_written := h_written conn
                             @ [error_line (TypeError (wording (UnexpectedKeyword k0)))]\<rparr>
                 \<and> \<not> h_closed (handle_turn drain
                                   (request_pipeline loads wording process dumps) conn))"
proof -
  from first_unexpected_keyword[OF assms(2,3)] obtain k0 ks where
    f: "filter (\<lambda>k. k \<notin> set field_names) (dict_keys kwargs) = k0 # ks"
    and k0: "k0 \<in> set (dict_keys kwargs)" "k0 \<notin> set field_names"
    by blast
  let ?e = "TypeError (wording (UnexpectedKeyword k0))"
  have init: "InferenceRequest_init wording (JObject kwargs) = Inl ?e"
    by (simp add: InferenceRequest_init_def f)
  have pipe: "request_pipeline loads wording process dumps request_line st = (Inl ?e, st)"
    by (simp add: request_pipeline_def assms(1) init)
  have turn: "handle_turn drain (request_pipeline loads wording process dumps) conn
                   = conn\<lparr>h_inbound := rest, h_written := h_written conn @ [error_line ?e]\<rparr>
                 \<and> \<not> h_closed (handle_turn drain
                                   (request_pipeline loads wording process dumps) conn)"
    if "\<not> h_closed conn" "h_inbound conn = Line request_line # rest" "request_line \<noteq> []"
      "h_state conn = st" "drain (length (h_written conn)) = None"
    for conn drain rest
  proof -
    have "request_pipeline loads wording process dumps request_line (h_state conn) = (Inl ?e, st)"
      using pipe that(4) by simp
    with that show ?thesis by (simp add: handle_turn_def write_drain_def)
  qed
  from k0 init pipe turn show ?thesis by blast
qed

theorem unexpected_field_is_rejected_witness:
  "handle_turn no_failure
       (request_pipeline sample_loads sample_wording sample_process sample_dumps)
       \<lparr>h_inbound = [Line sample_line_extra], h_written = [], h_closed = False, h_state = 0\<rparr>
     = \<lparr>h_inbound = [],
        h_written = [error_line (TypeError (sample_wording (UnexpectedKeyword ''seed'')))],
        h_closed = False, h_state = 0\<rparr>"
proof -
  let ?conn = "\<lparr>h_inbound = [Line sample_line_extra], h_written = [], h_closed = False,
                 h_state = 0 :: nat\<rparr>"
  let ?kwargs = "[(''model'', JString ''m''), (''actionMasks'', JArray []),
                  (''obs'', JArray []), (''seed'', JNull :: unit json)]"
  have l: "sample_loads sample_line_extra = Inr (JObject ?kwargs)"
    by (simp add: sample_loads_def sample_line_def sample_line_extra_def)
  have k: "''seed'' \<in> set (dict_keys ?kwargs)" by (simp add: dict_keys_def)
  have n: "''seed'' \<notin> set field_names" by (simp add: field_names_def)
  from unexpected_field_is_rejected[where loads = sample_loads
      and request_line = sample_line_extra and kwargs = ?kwargs and k = "''seed''"
      and wording = sample_wording and process = sample_process and dumps = sample_dumps
      and st = "0 :: nat", OF l k n]
  obtain k0 where K: "k0 \<in> set (dict_keys ?kwargs) \<and> k0 \<notin> set field_names
       \<and> InferenceRequest_init sample_wording (JObject ?kwargs)
           = Inl (TypeError (sample_wording (UnexpectedKeyword k0)))
       \<and> request_pipeline sample_loads sample_wording sample_process sample_dumps
             sample_line_extra 0
           = (Inl (TypeError (sample_wording (UnexpectedKeyword k0))), 0)
       \<and> (\<forall>conn drain rest.
             \<not> h_closed conn \<and> h_inbound conn = Line sample_line_extra # rest
             \<and> sample_line_extra \<noteq> [] \<and> h_state conn = (0::nat)
             \<and> drain (length (h_written conn)) = None
             \<longrightarrow> handle_turn drain
                      (request_pipeline sample_loads sample_wording sample_process sample_dumps) conn
                   = conn\<lparr>h_inbound := rest,
                          h_written := h_written conn
                             @ [error_line (TypeError (sample_wording (UnexpectedKeyword k0)))]\<rparr>
                 \<and> \<not> h_closed (handle_turn drain
                       (request_pipeline sample_loads sample_wording sample_process sample_dumps)
                       conn))"
    by (erule exE)
  note k0 = K[THEN conjunct1] K[THEN conjunct2, THEN conjunct1]
  note turn = K[THEN conjunct2, THEN conjunct2, THEN conjunct2, THEN conjunct2,
      THEN spec, THEN spec, THEN spec, THEN mp, THEN conjunct1]
  from k0 have seed: "k0 = ''seed''" by (auto simp: dict_keys_def field_names_def)
  have "\<not> h_closed ?conn \<and> h_inbound ?conn = Line sample_line_extra # []
             \<and> sample_line_extra \<noteq> [] \<and> h_state ?conn = (0::nat)
             \<and> no_failure (length (h_written ?conn)) = None"
    by (simp add: no_failure_def sample_line_extra_def)
  then have "handle_turn no_failure
       (request_pipeline sample_loads sample_wording sample_process sample_dumps) ?conn
     = ?conn\<lparr>h_inbound := [],
             h_written := h_written ?conn
                @ [error_line (TypeError (sample_wording (UnexpectedKeyword k0)))]\<rparr>"
    by (rule turn)
  then show ?thesis unfolding seed by simp
qed

end
